theory Spec2Isabelle
  imports Main "HOL-Library.Word"
begin

section \<open>The REST router of caronte (internal/core/application\_router.go)\<close>

text \<open>
  The router binds HTTP routes to the operations of the core. Every handler that
  \<^verbatim>\<open>CreateApplicationRouter\<close> registers is embedded as a function from the
  application context and the request to an outcome: the HTTP status and body written
  with \<^verbatim>\<open>c.JSON\<close> (or a string, a file, a file attachment), and the list of effects
  the handler performed, in the order of the source: calls on the controllers, file
  operations and notifications. The router itself is the function that hands a request
  to the handler of its route, behind the middlewares of the route's group.

  Controllers, \<^verbatim>\<open>RowID\<close>, the path constants and the helpers \<^verbatim>\<open>FileExists\<close> and
  \<^verbatim>\<open>CopyFile\<close> are declared outside this file; the handlers take their results from
  function-valued fields of the context, so every theorem holds for each behaviour of
  these collaborators.
\<close>

subsection \<open>Values, documents and outcomes\<close>

text \<open>
  Modelled from the spec: the type \<^verbatim>\<open>RowID\<close> is declared outside this file; the ids
  of the data model are 96 bits wide. The router only parses, prints and passes them on.
\<close>

type_synonym RowID = "96 word"

text \<open>
  \<^verbatim>\<open>gin.H\<close> and \<^verbatim>\<open>UnorderedDocument\<close> are maps from field names to values, written here
  as association lists in the order of the source literal. Entities that the router
  only moves between the JSON binding, a controller and the JSON response (rules,
  sessions, connections, search results) are represented by their documents.
\<close>

datatype jvalue =
    JNull
  | JBool bool
  | JNum int
  | JStr string
  | JRowID RowID
  | JArr "jvalue list"
  | JObj "(string \<times> jvalue) list"

type_synonym Rule = jvalue
type_synonym Session = jvalue
type_synonym Connection = jvalue

text \<open>A Go \<^verbatim>\<open>error\<close> is represented by its message, \<^verbatim>\<open>err.Error()\<close>.\<close>

type_synonym error = string

text \<open>\<^verbatim>\<open>gin.Accounts\<close> maps user names to passwords.\<close>

type_synonym Accounts = "(string \<times> string) list"

text \<open>Of \<^verbatim>\<open>Config\<close> the router reads one field.\<close>

record Config =
  AuthRequired :: bool

text \<open>
  The search options. The router reads the fields below: \<^verbatim>\<open>Terms\<close> and
  \<^verbatim>\<open>ExcludedTerms\<close> are compared with \<^verbatim>\<open>nil\<close> (\<open>None\<close>), \<^verbatim>\<open>ExactPhrase\<close>,
  \<^verbatim>\<open>Pattern\<close> and \<^verbatim>\<open>NotPattern\<close> with the empty string. The fields of the structs
  that the router does not mention live in the extension part of each record, as a
  document.
\<close>

record TextSearch =
  Terms :: "string list option"
  ExcludedTerms :: "string list option"
  ExactPhrase :: string

record RegexSearch =
  Pattern :: string
  NotPattern :: string

record SearchOptions =
  TextSearch :: "jvalue TextSearch_scheme"
  RegexSearch :: "jvalue RegexSearch_scheme"

datatype body =
    JSON jvalue
  | PlainString string
  | ServedFile string
  | FileAttachment string string
  | NoBody

datatype effect =
    Notify string jvalue
  | Call_SetConfig Config
  | Call_SetAccounts Accounts
  | Call_AddRule Rule
  | Call_GetRule RowID
  | Call_UpdateRule RowID Rule
  | Call_ImportPcap string bool
  | Call_GetSession RowID
  | Call_CancelSession RowID
  | Call_GetConnection RowID
  | Call_SetHidden RowID bool
  | Call_SetMarked RowID bool
  | Call_SetComment RowID string
  | Call_GetConnectionMessages RowID jvalue
  | Call_PerformSearch SearchOptions
  | Call_CopyFile string string
  | Call_Remove string
  | Panic string
  | Call_NotificationHandler
  | Call_Status
  | Call_GetRules
  | Call_SaveUploadedFile string string
  | Call_StartLocalCapture jvalue
  | Call_StopCapture
  | Call_ListInterfaces
  | Call_SetSessionRotationInterval "64 word"
  | Call_StartRemoteCapture jvalue jvalue
  | Call_ListRemoteInterfaces jvalue
  | Call_GetSessions
  | Call_GetConnections jvalue
  | Call_GetPerformedSearches
  | Call_DownloadConnectionMessages RowID jvalue
  | Call_GetServices
  | Call_SetService jvalue
  | Call_DeleteService jvalue
  | Call_GetStatistics jvalue
  | Call_GetTotalStatistics jvalue
  | Call_GetSystemStats
  | Call_GetProcessStats

record outcome =
  status :: nat
  body :: body
  effects :: "effect list"

subsection \<open>HTTP status codes used by the router\<close>

definition StatusOK :: nat where "StatusOK = 200"
definition StatusAccepted :: nat where "StatusAccepted = 202"
definition StatusBadRequest :: nat where "StatusBadRequest = 400"
definition StatusUnauthorized :: nat where "StatusUnauthorized = 401"
definition StatusNotFound :: nat where "StatusNotFound = 404"
definition StatusUnprocessableEntity :: nat where "StatusUnprocessableEntity = 422"
definition StatusInternalServerError :: nat where "StatusInternalServerError = 500"
definition StatusServiceUnavailable :: nat where "StatusServiceUnavailable = 503"

subsection \<open>Response helpers\<close>

text \<open>\<^verbatim>\<open>c.JSON(code, obj)\<close>: writes the status and the document; nothing else happens.\<close>

definition c_JSON :: "nat \<Rightarrow> jvalue \<Rightarrow> outcome" where
  "c_JSON code obj = \<lparr>status = code, body = JSON obj, effects = []\<rparr>"

definition success :: "jvalue \<Rightarrow> outcome" where
  "success obj = c_JSON StatusOK obj"

definition badRequest :: "error \<Rightarrow> outcome" where
  "badRequest err =
     c_JSON StatusBadRequest (JObj [(''result'', JStr ''error''), (''error'', JStr err)])"

definition unprocessableEntity :: "error \<Rightarrow> outcome" where
  "unprocessableEntity err =
     c_JSON StatusUnprocessableEntity
       (JObj [(''result'', JStr ''error''), (''error'', JStr err)])"

definition notFound :: "jvalue \<Rightarrow> outcome" where
  "notFound obj = c_JSON StatusNotFound obj"

text \<open>
  Sequencing. \<open>after es out\<close> is an outcome whose response was written after the
  effects \<open>es\<close>; \<open>followed_by out es\<close> performs \<open>es\<close> after the response was written
  (the notifications, which every handler sends last).
\<close>

definition after :: "effect list \<Rightarrow> outcome \<Rightarrow> outcome" where
  "after es out = out\<lparr>effects := es @ effects out\<rparr>"

definition followed_by :: "outcome \<Rightarrow> effect list \<Rightarrow> outcome" where
  "followed_by out es = out\<lparr>effects := effects out @ es\<rparr>"

text \<open>
  \<^verbatim>\<open>log.WithError(err).Panic(msg)\<close> panics; \<^verbatim>\<open>gin.Recovery()\<close>, installed on the
  router, answers 500 with no body.
\<close>

definition log_Panic :: "string \<Rightarrow> outcome" where
  "log_Panic msg = \<lparr>status = StatusInternalServerError, body = NoBody, effects = [Panic msg]\<rparr>"

text \<open>
  \<^verbatim>\<open>c.FileAttachment(filepath, filename)\<close> serves the file as a download under the
  given name; the router calls it for files it has just found to exist, which are
  served with 200.
\<close>

definition c_FileAttachment :: "string \<Rightarrow> string \<Rightarrow> outcome" where
  "c_FileAttachment filepath filename =
     \<lparr>status = StatusOK, body = FileAttachment filepath filename, effects = []\<rparr>"

text \<open>\<^verbatim>\<open>c.AbortWithStatus(code)\<close>: the status with no body; the chain stops.\<close>

definition c_AbortWithStatus :: "nat \<Rightarrow> outcome" where
  "c_AbortWithStatus code = \<lparr>status = code, body = NoBody, effects = []\<rparr>"

subsection \<open>The application context and the request\<close>

text \<open>The header of an uploaded file, of which the router reads the name.\<close>

record FileHeader =
  Filename :: string

text \<open>
  Several methods of the controllers take the gin context \<^verbatim>\<open>c\<close> as their
  \<^verbatim>\<open>context.Context\<close>, and through it they can reach the request. What such a
  method is handed is the request without its typed bindings: the path parameters,
  the host, the \<^verbatim>\<open>Authorization\<close> header and the multipart form.
\<close>

record Request =
  Request_Param :: "string \<Rightarrow> string"
  Request_Host :: string
  Request_Authorization :: "string option"
  Request_FormFile :: "string \<Rightarrow> error + FileHeader"
  Request_GetPostForm :: "string \<Rightarrow> string option"

text \<open>
  The controllers of \<^verbatim>\<open>ApplicationContext\<close> and the two controllers the router is
  created with, with the methods the routes call. A method that takes \<^verbatim>\<open>c\<close> in the
  source takes the request here, first. A method returning \<^verbatim>\<open>(value, error)\<close>
  returns a sum (\<open>Inl\<close> the error), one returning \<^verbatim>\<open>(value, found)\<close> an option, one
  returning an \<^verbatim>\<open>error\<close> an optional error. Capture options, SSH configurations,
  filters, formats, services and the results of the queries pass through the router as
  documents.
\<close>

record RulesManager =
  GetRules :: jvalue
  AddRule :: "Request \<Rightarrow> Rule \<Rightarrow> error + RowID"
  GetRule :: "RowID \<Rightarrow> Rule option"
  UpdateRule :: "Request \<Rightarrow> RowID \<Rightarrow> Rule \<Rightarrow> error + bool"

record PcapImporter =
  ImportPcap :: "string \<Rightarrow> bool \<Rightarrow> error + RowID"
  StartLocalCapture :: "jvalue \<Rightarrow> error option"
  StopCapture :: "error option"
  ListInterfaces :: "error + jvalue"
  StartRemoteCapture :: "jvalue \<Rightarrow> jvalue \<Rightarrow> error option"
  ListRemoteInterfaces :: "jvalue \<Rightarrow> error + jvalue"
  GetSessions :: jvalue
  GetSession :: "RowID \<Rightarrow> Session option"
  CancelSession :: "RowID \<Rightarrow> bool"

record ConnectionsController =
  GetConnections :: "Request \<Rightarrow> jvalue \<Rightarrow> jvalue"
  GetConnection :: "Request \<Rightarrow> RowID \<Rightarrow> Connection option"
  SetHidden :: "Request \<Rightarrow> RowID \<Rightarrow> bool \<Rightarrow> bool"
  SetMarked :: "Request \<Rightarrow> RowID \<Rightarrow> bool \<Rightarrow> bool"
  SetComment :: "Request \<Rightarrow> RowID \<Rightarrow> string \<Rightarrow> bool"

record ConnectionStreamsController =
  GetConnectionMessages :: "Request \<Rightarrow> RowID \<Rightarrow> jvalue \<Rightarrow> jvalue option"
  DownloadConnectionMessages :: "Request \<Rightarrow> RowID \<Rightarrow> jvalue \<Rightarrow> string option"

record SearchController =
  GetPerformedSearches :: jvalue
  PerformSearch :: "Request \<Rightarrow> SearchOptions \<Rightarrow> jvalue"

record ServicesController =
  GetServices :: jvalue
  SetService :: "Request \<Rightarrow> jvalue \<Rightarrow> error option"
  DeleteService :: "Request \<Rightarrow> jvalue \<Rightarrow> error option"

record StatisticsController =
  GetStatistics :: "Request \<Rightarrow> jvalue \<Rightarrow> jvalue"
  GetTotalStatistics :: "Request \<Rightarrow> jvalue \<Rightarrow> jvalue"

record ApplicationContext =
  IsConfigured :: bool
  Config :: Config
  Accounts :: Accounts
  Status :: jvalue
  RulesManager :: RulesManager
  PcapImporter :: PcapImporter
  ConnectionsController :: ConnectionsController
  ConnectionStreamsController :: ConnectionStreamsController
  SearchController :: SearchController
  ServicesController :: ServicesController
  StatisticsController :: StatisticsController

record NotificationController =
  NotificationHandler :: "Request \<Rightarrow> error option"

record ResourcesController =
  GetSystemStats :: "Request \<Rightarrow> jvalue"
  GetProcessStats :: "Request \<Rightarrow> jvalue"

text \<open>
  What the router uses of package \<^verbatim>\<open>core\<close> outside this file, of the standard
  library and of the file system: the parsing and printing of row ids, the
  \<^verbatim>\<open>isZero\<close> methods of the two search categories, the file helpers, the path
  constants and the constant \<^verbatim>\<open>secondsToNano\<close>, \<^verbatim>\<open>os.Remove\<close>, the saving of an
  uploaded file (\<^verbatim>\<open>c.SaveUploadedFile\<close>), \<^verbatim>\<open>filepath.Join\<close> (of two elements),
  \<^verbatim>\<open>filepath.Base\<close>, \<^verbatim>\<open>strings.ToLower\<close> and the clock reading
  \<^verbatim>\<open>time.Now().UnixNano()\<close> at the request.
\<close>

record Externals =
  RowIDFromHex :: "string \<Rightarrow> error + RowID"
  Hex :: "RowID \<Rightarrow> string"
  TextSearch_isZero :: "jvalue TextSearch_scheme \<Rightarrow> bool"
  RegexSearch_isZero :: "jvalue RegexSearch_scheme \<Rightarrow> bool"
  FileExists :: "string \<Rightarrow> bool"
  CopyFile :: "string \<Rightarrow> string \<Rightarrow> error option"
  PcapsBasePath :: string
  ProcessingPcapsBasePath :: string
  ConnectionPcapsBasePath :: string
  secondsToNano :: "64 word"
  os_Remove :: "string \<Rightarrow> error option"
  SaveUploadedFile :: "FileHeader \<Rightarrow> string \<Rightarrow> error option"
  filepath_Join :: "string \<Rightarrow> string \<Rightarrow> string"
  filepath_Base :: "string \<Rightarrow> string"
  strings_ToLower :: "string \<Rightarrow> string"
  UnixNano :: int

text \<open>
  The request side of \<^verbatim>\<open>gin.Context\<close>: the path parameters, the host, the
  \<^verbatim>\<open>Authorization\<close> header, the results of binding the JSON body and the query
  string to the handler's target type \<open>'b\<close> (\<open>Inl\<close> the binding error), and of a
  multipart form its files (\<^verbatim>\<open>c.FormFile\<close>) and its values (\<^verbatim>\<open>c.GetPostForm\<close>, \<open>None\<close>
  when the key is absent).
\<close>

record 'b Context =
  Param :: "string \<Rightarrow> string"
  Host :: string
  Authorization :: "string option"
  ShouldBindJSON :: "error + 'b"
  ShouldBindQuery :: "error + 'b"
  FormFile :: "string \<Rightarrow> error + FileHeader"
  GetPostForm :: "string \<Rightarrow> string option"

type_synonym 'b HandlerFunc = "'b Context \<Rightarrow> outcome"

text \<open>The gin context as a \<^verbatim>\<open>context.Context\<close>: what a controller method is handed.\<close>

definition as_context :: "'b Context \<Rightarrow> Request" where
  "as_context c =
     \<lparr>Request_Param = Param c, Request_Host = Host c,
      Request_Authorization = Authorization c,
      Request_FormFile = FormFile c, Request_GetPostForm = GetPostForm c\<rparr>"

subsection \<open>Setup and the middlewares of the /api group\<close>

record Settings =
  Settings_Config :: Config
  Settings_Accounts :: Accounts

definition post_setup :: "ApplicationContext \<Rightarrow> Settings HandlerFunc" where
  "post_setup applicationContext c =
     (if IsConfigured applicationContext then c_AbortWithStatus StatusNotFound
      else case ShouldBindJSON c of
             Inl err \<Rightarrow> badRequest err
           | Inr settings \<Rightarrow>
               after [Call_SetConfig (Settings_Config settings),
                      Call_SetAccounts (Settings_Accounts settings)]
                 (followed_by (c_JSON StatusAccepted (JObj []))
                    [Notify ''setup'' (JObj [])]))"

definition SetupRequiredMiddleware ::
  "ApplicationContext \<Rightarrow> 'b HandlerFunc \<Rightarrow> 'b HandlerFunc" where
  "SetupRequiredMiddleware applicationContext next c =
     (if \<not> IsConfigured applicationContext
      then c_JSON StatusServiceUnavailable
             (JObj [(''error'', JStr ''setup required''), (''url'', JStr (Host c @ ''/setup''))])
      else next c)"

text \<open>
  \<^verbatim>\<open>gin.BasicAuth\<close> belongs to the web framework; it is a parameter: given the
  accounts and the rest of the chain it serves the request.
\<close>

definition AuthRequiredMiddleware ::
  "(Accounts \<Rightarrow> 'b HandlerFunc \<Rightarrow> 'b HandlerFunc) \<Rightarrow> ApplicationContext
     \<Rightarrow> 'b HandlerFunc \<Rightarrow> 'b HandlerFunc" where
  "AuthRequiredMiddleware gin_BasicAuth applicationContext next c =
     (if \<not> AuthRequired (Config applicationContext) then next c
      else gin_BasicAuth (Accounts applicationContext) next c)"

text \<open>
  A route registered on \<^verbatim>\<open>api\<close> runs behind both middlewares, in this order. Of
  the middlewares installed on the whole router (logger, recovery, static files) only
  the recovery shows in the model, as the answer to a panic.
\<close>

definition api ::
  "(Accounts \<Rightarrow> 'b HandlerFunc \<Rightarrow> 'b HandlerFunc) \<Rightarrow> ApplicationContext
     \<Rightarrow> 'b HandlerFunc \<Rightarrow> 'b HandlerFunc" where
  "api gin_BasicAuth applicationContext handler =
     SetupRequiredMiddleware applicationContext
       (AuthRequiredMiddleware gin_BasicAuth applicationContext handler)"

subsection \<open>Rules\<close>

definition post_rules :: "ApplicationContext \<Rightarrow> Rule HandlerFunc" where
  "post_rules applicationContext c =
     (case ShouldBindJSON c of
        Inl err \<Rightarrow> badRequest err
      | Inr rule \<Rightarrow>
          after [Call_AddRule rule]
            (case AddRule (RulesManager applicationContext) (as_context c) rule of
               Inl err \<Rightarrow> unprocessableEntity err
             | Inr id' \<Rightarrow>
                 (let response = JObj [(''id'', JRowID id')]
                  in followed_by (success response) [Notify ''rules.new'' response])))"

definition get_rules_id :: "Externals \<Rightarrow> ApplicationContext \<Rightarrow> 'b HandlerFunc" where
  "get_rules_id ext applicationContext c =
     (case RowIDFromHex ext (Param c ''id'') of
        Inl err \<Rightarrow> badRequest err
      | Inr id' \<Rightarrow>
          after [Call_GetRule id']
            (case GetRule (RulesManager applicationContext) id' of
               None \<Rightarrow> notFound (JObj [(''error'', JStr ''not found''), (''id'', JRowID id')])
             | Some rule \<Rightarrow> success rule))"

definition put_rules_id :: "Externals \<Rightarrow> ApplicationContext \<Rightarrow> Rule HandlerFunc" where
  "put_rules_id ext applicationContext c =
     (case RowIDFromHex ext (Param c ''id'') of
        Inl err \<Rightarrow> badRequest err
      | Inr id' \<Rightarrow>
          (case ShouldBindJSON c of
             Inl err \<Rightarrow> badRequest err
           | Inr rule \<Rightarrow>
               after [Call_UpdateRule id' rule]
                 (case UpdateRule (RulesManager applicationContext) (as_context c) id' rule of
                    Inl err \<Rightarrow> badRequest err
                  | Inr isPresent \<Rightarrow>
                      if \<not> isPresent
                      then notFound (JObj [(''error'', JStr ''not found''), (''id'', JRowID id')])
                      else followed_by (success rule) [Notify ''rules.edit'' rule])))"

subsection \<open>PCAP files and sessions\<close>

text \<open>
  \<^verbatim>\<open>fmt.Sprintf("%v-%s", n, name)\<close> for an \<^verbatim>\<open>int64\<close> \<open>n\<close>: the decimal numeral of
  \<open>n\<close>, a dash, the name.
\<close>

fun decimal :: "nat \<Rightarrow> string" where
  "decimal n =
     (if n < 10 then [char_of (48 + n)]
      else decimal (n div 10) @ [char_of (48 + n mod 10)])"

declare decimal.simps [simp del]

definition Sprintf_v_s :: "int \<Rightarrow> string \<Rightarrow> string" where
  "Sprintf_v_s n name =
     (if n < 0 then ''-'' @ decimal (nat (- n)) else decimal (nat n)) @ ''-'' @ name"

record PcapFileRequest =
  File :: string
  FlushAll :: bool
  DeleteOriginalFile :: bool

definition post_pcap_file ::
  "Externals \<Rightarrow> ApplicationContext \<Rightarrow> PcapFileRequest HandlerFunc" where
  "post_pcap_file ext applicationContext c =
     (case ShouldBindJSON c of
        Inl err \<Rightarrow> badRequest err
      | Inr request \<Rightarrow>
          if \<not> FileExists ext (File request) then badRequest ''file not exists''
          else
            (let fileName = Sprintf_v_s (UnixNano ext) (filepath_Base ext (File request));
                 dst = filepath_Join ext (ProcessingPcapsBasePath ext) fileName
             in after [Call_CopyFile dst (File request)]
                  (case CopyFile ext dst (File request) of
                     Some err \<Rightarrow> log_Panic ''failed to copy pcap file''
                   | None \<Rightarrow>
                       after [Call_ImportPcap fileName (FlushAll request)]
                         (case ImportPcap (PcapImporter applicationContext) fileName
                                 (FlushAll request) of
                            Inl err \<Rightarrow>
                              if DeleteOriginalFile request
                              then after [Call_Remove (File request)]
                                     (case os_Remove ext (File request) of
                                        Some err' \<Rightarrow>
                                          log_Panic ''failed to remove processed file''
                                      | None \<Rightarrow> unprocessableEntity err)
                              else unprocessableEntity err
                          | Inr sessionID \<Rightarrow>
                              (let response = JObj [(''session'', JStr (Hex ext sessionID))]
                               in followed_by (c_JSON StatusAccepted response)
                                    [Notify ''pcap.file'' response])))))"

definition get_pcap_sessions_id ::
  "Externals \<Rightarrow> ApplicationContext \<Rightarrow> 'b HandlerFunc" where
  "get_pcap_sessions_id ext applicationContext c =
     (case RowIDFromHex ext (Param c ''id'') of
        Inl err \<Rightarrow> badRequest err
      | Inr sessionID \<Rightarrow>
          after [Call_GetSession sessionID]
            (case GetSession (PcapImporter applicationContext) sessionID of
               Some session \<Rightarrow> success session
             | None \<Rightarrow>
                 notFound (JObj [(''error'', JStr ''not found''),
                                 (''session'', JRowID sessionID)])))"

definition get_pcap_sessions_id_download ::
  "Externals \<Rightarrow> ApplicationContext \<Rightarrow> 'b HandlerFunc" where
  "get_pcap_sessions_id_download ext applicationContext c =
     (case RowIDFromHex ext (Param c ''id'') of
        Inl err \<Rightarrow> badRequest err
      | Inr sessionID \<Rightarrow>
          after [Call_GetSession sessionID]
            (let not_found = notFound (JObj [(''error'', JStr ''not found''),
                                             (''session'', JRowID sessionID)])
             in case GetSession (PcapImporter applicationContext) sessionID of
                  Some session \<Rightarrow>
                    (let pcapPath = filepath_Join ext (PcapsBasePath ext)
                                      (Hex ext sessionID @ ''.pcap'');
                         pcapngPath = filepath_Join ext (PcapsBasePath ext)
                                        (Hex ext sessionID @ ''.pcapng'')
                     in if FileExists ext pcapPath
                        then c_FileAttachment pcapPath (Hex ext sessionID @ ''.pcap'')
                        else if FileExists ext pcapngPath
                        then c_FileAttachment pcapngPath (Hex ext sessionID @ ''.pcapng'')
                        else not_found)
                | None \<Rightarrow> not_found))"

definition delete_pcap_sessions_id ::
  "Externals \<Rightarrow> ApplicationContext \<Rightarrow> 'b HandlerFunc" where
  "delete_pcap_sessions_id ext applicationContext c =
     (case RowIDFromHex ext (Param c ''id'') of
        Inl err \<Rightarrow> badRequest err
      | Inr sessionID \<Rightarrow>
          (let session = JObj [(''session'', JStr (Hex ext sessionID))]
           in after [Call_CancelSession sessionID]
                (if CancelSession (PcapImporter applicationContext) sessionID
                 then followed_by (c_JSON StatusAccepted session)
                        [Notify ''sessions.delete'' session]
                 else notFound session)))"

text \<open>
  Modelled from the spec: \<^verbatim>\<open>PcapImporter.CancelSession\<close> is declared outside the
  source at hand. The spec (4.4, with the session of 3): a session has a nullable
  completed-at and a cancelled flag and is terminal on completion or cancellation;
  \<^verbatim>\<open>cancel_session(session_id)\<close> signals the worker to abort and returns true if a
  running session was cancelled. The sessions are the map keyed by session id of 5.
\<close>

record SessionState =
  completed_at :: "int option"
  cancelled :: bool

definition running :: "SessionState \<Rightarrow> bool" where
  "running s = (completed_at s = None \<and> \<not> cancelled s)"

definition cancel_session ::
  "(RowID \<rightharpoonup> SessionState) \<Rightarrow> RowID \<Rightarrow> bool \<times> (RowID \<rightharpoonup> SessionState)" where
  "cancel_session sessions session_id =
     (case sessions session_id of
        None \<Rightarrow> (False, sessions)
      | Some s \<Rightarrow>
          if running s then (True, sessions(session_id \<mapsto> s\<lparr>cancelled := True\<rparr>))
          else (False, sessions))"

subsection \<open>Connections and streams\<close>

definition get_connections_id ::
  "Externals \<Rightarrow> ApplicationContext \<Rightarrow> 'b HandlerFunc" where
  "get_connections_id ext applicationContext c =
     (case RowIDFromHex ext (Param c ''id'') of
        Inl err \<Rightarrow> badRequest err
      | Inr id' \<Rightarrow>
          after [Call_GetConnection id']
            (case GetConnection (ConnectionsController applicationContext) (as_context c) id' of
               Some connection \<Rightarrow> success connection
             | None \<Rightarrow>
                 notFound (JObj [(''error'', JStr ''not found''),
                                 (''connection'', JRowID id')])))"

text \<open>
  The \<^verbatim>\<open>switch\<close> of the action route: \<open>Inl\<close> is a branch that answers and returns,
  \<open>Inr\<close> the controller's result with the call made.
\<close>

definition action_switch ::
  "ApplicationContext \<Rightarrow> string Context \<Rightarrow> RowID \<Rightarrow> string
     \<Rightarrow> outcome + (bool \<times> effect list)" where
  "action_switch applicationContext c id' action =
     (let cc = ConnectionsController applicationContext;
          ctx = as_context c
      in if action = ''hide'' then Inr (SetHidden cc ctx id' True, [Call_SetHidden id' True])
         else if action = ''show''
         then Inr (SetHidden cc ctx id' False, [Call_SetHidden id' False])
         else if action = ''mark'' then Inr (SetMarked cc ctx id' True, [Call_SetMarked id' True])
         else if action = ''unmark''
         then Inr (SetMarked cc ctx id' False, [Call_SetMarked id' False])
         else if action = ''comment''
         then (case ShouldBindJSON c of
                 Inl err \<Rightarrow> Inl (badRequest err)
               | Inr comment \<Rightarrow>
                   Inr (SetComment cc ctx id' comment, [Call_SetComment id' comment]))
         else Inl (badRequest ''invalid action''))"

definition post_connections_id_action ::
  "Externals \<Rightarrow> ApplicationContext \<Rightarrow> string HandlerFunc" where
  "post_connections_id_action ext applicationContext c =
     (case RowIDFromHex ext (Param c ''id'') of
        Inl err \<Rightarrow> badRequest err
      | Inr id' \<Rightarrow>
          (case action_switch applicationContext c id' (Param c ''action'') of
             Inl returned \<Rightarrow> returned
           | Inr (result, calls) \<Rightarrow>
               after calls
                 (if result
                  then (let response = JObj [(''connection_id'', JStr (Param c ''id'')),
                                             (''action'', JStr (Param c ''action''))]
                        in followed_by (success response)
                             [Notify ''connections.action'' response])
                  else notFound (JObj [(''error'', JStr ''not found''),
                                       (''connection'', JRowID id')]))))"

definition get_streams_id ::
  "Externals \<Rightarrow> ApplicationContext \<Rightarrow> jvalue HandlerFunc" where
  "get_streams_id ext applicationContext c =
     (case RowIDFromHex ext (Param c ''id'') of
        Inl err \<Rightarrow> badRequest err
      | Inr id' \<Rightarrow>
          (case ShouldBindQuery c of
             Inl err \<Rightarrow> badRequest err
           | Inr format \<Rightarrow>
               after [Call_GetConnectionMessages id' format]
                 (case GetConnectionMessages (ConnectionStreamsController applicationContext)
                         (as_context c) id' format of
                    None \<Rightarrow>
                      notFound (JObj [(''error'', JStr ''not found''),
                                      (''connection'', JRowID id')])
                  | Some messages \<Rightarrow> success messages)))"

subsection \<open>Searches\<close>

text \<open>A name between single quotes, as the error messages of the search route write it.\<close>

definition quoted :: "string \<Rightarrow> string" where
  "quoted name = [CHR 0x27] @ name @ [CHR 0x27]"

text \<open>
  The checks of the search route assign \<^verbatim>\<open>badContentError\<close> one after the other; a
  later assignment overwrites an earlier one, and none resets it to \<^verbatim>\<open>nil\<close>.
\<close>

definition badContentError :: "Externals \<Rightarrow> SearchOptions \<Rightarrow> error option" where
  "badContentError ext options =
     (let text_search = TextSearch options;
          regex_search = RegexSearch options;
          e0 = None;
          e1 = (if TextSearch_isZero ext text_search = RegexSearch_isZero ext regex_search
                then Some (''specify either '' @ quoted ''text_search'' @ '' or ''
                           @ quoted ''regex_search'')
                else e0);
          e3 = (if \<not> TextSearch_isZero ext text_search
                then (let e2 = (if (Terms text_search = None)
                                     = (ExactPhrase text_search = '''')
                                then Some (''specify either '' @ quoted ''terms'' @ '' or ''
                                           @ quoted ''exact_phrase'')
                                else e1)
                      in if Terms text_search = None \<and> ExcludedTerms text_search \<noteq> None
                         then Some (quoted ''excluded_terms''
                                    @ '' must be specified only with '' @ quoted ''terms'')
                         else e2)
                else e1);
          e4 = (if \<not> RegexSearch_isZero ext regex_search
                then (if (Pattern regex_search = '''') = (NotPattern regex_search = '''')
                      then Some (''specify either '' @ quoted ''pattern'' @ '' or ''
                                 @ quoted ''not_pattern'')
                      else e3)
                else e3)
      in e4)"

definition post_searches_perform ::
  "Externals \<Rightarrow> ApplicationContext \<Rightarrow> SearchOptions HandlerFunc" where
  "post_searches_perform ext applicationContext c =
     (case ShouldBindJSON c of
        Inl err \<Rightarrow> badRequest err
      | Inr options \<Rightarrow>
          (case badContentError ext options of
             Some err \<Rightarrow> badRequest err
           | None \<Rightarrow>
               after [Call_PerformSearch options]
                 (success (PerformSearch (SearchController applicationContext) (as_context c)
                             options))))"

text \<open>
  The exclusivity rules of the search options as the specification words them, a
  category or subform being present when it is not its zero value: exactly one of the
  two categories; within a present text search exactly one of terms and exact phrase,
  and excluded terms only with terms; within a present regex search exactly one of
  pattern and not-pattern.
\<close>

definition exclusivity_rules :: "Externals \<Rightarrow> SearchOptions \<Rightarrow> bool" where
  "exclusivity_rules ext options =
     (let text_present = \<not> TextSearch_isZero ext (TextSearch options);
          regex_present = \<not> RegexSearch_isZero ext (RegexSearch options);
          terms_present = (Terms (TextSearch options) \<noteq> None);
          excluded_present = (ExcludedTerms (TextSearch options) \<noteq> None);
          phrase_present = (ExactPhrase (TextSearch options) \<noteq> '''');
          pattern_present = (Pattern (RegexSearch options) \<noteq> '''');
          not_pattern_present = (NotPattern (RegexSearch options) \<noteq> '''')
      in (text_present \<noteq> regex_present)
         \<and> (text_present \<longrightarrow>
               (terms_present \<noteq> phrase_present) \<and> (excluded_present \<longrightarrow> terms_present))
         \<and> (regex_present \<longrightarrow> (pattern_present \<noteq> not_pattern_present)))"

subsection \<open>The other routes\<close>

text \<open>
  The routes below complete the router: with the ones above (setup, rules, PCAP file and
  sessions, connections, streams, searches) they are all the routes that
  \<^verbatim>\<open>CreateApplicationRouter\<close> registers.
\<close>

definition serverError :: "error \<Rightarrow> outcome" where
  "serverError err =
     c_JSON StatusInternalServerError
       (JObj [(''result'', JStr ''error''), (''error'', JStr err)])"

text \<open>\<^verbatim>\<open>c.String(code, s)\<close> writes the string; \<^verbatim>\<open>c.File(path)\<close> serves the file.\<close>

definition c_String :: "nat \<Rightarrow> string \<Rightarrow> outcome" where
  "c_String code s = \<lparr>status = code, body = PlainString s, effects = []\<rparr>"

definition c_File :: "string \<Rightarrow> outcome" where
  "c_File filepath = \<lparr>status = StatusOK, body = ServedFile filepath, effects = []\<rparr>"

text \<open>
  The pages of the web application: the same handler is registered for the seven paths
  /connections/:id, /pcaps, /rules, /services, /stats, /searches and /capture.
\<close>

definition get_page :: "'b HandlerFunc" where
  "get_page c = c_File ''./web/build/index.html''"

text \<open>
  GET /websocket hands the writer and the request to the notification controller and
  writes an answer of its own only when that fails.
\<close>

definition nothing_written :: outcome where
  "nothing_written = \<lparr>status = StatusOK, body = NoBody, effects = []\<rparr>"

definition get_websocket :: "NotificationController \<Rightarrow> 'b HandlerFunc" where
  "get_websocket notificationController c =
     after [Call_NotificationHandler]
       (case NotificationHandler notificationController (as_context c) of
          Some err \<Rightarrow> serverError err
        | None \<Rightarrow> nothing_written)"

definition get_status :: "ApplicationContext \<Rightarrow> 'b HandlerFunc" where
  "get_status applicationContext c =
     after [Call_Status] (success (Status applicationContext))"

definition get_rules :: "ApplicationContext \<Rightarrow> 'b HandlerFunc" where
  "get_rules applicationContext c =
     after [Call_GetRules] (success (GetRules (RulesManager applicationContext)))"

definition post_pcap_upload :: "Externals \<Rightarrow> ApplicationContext \<Rightarrow> 'b HandlerFunc" where
  "post_pcap_upload ext applicationContext c =
     (case FormFile c ''file'' of
        Inl err \<Rightarrow> badRequest err
      | Inr fileHeader \<Rightarrow>
          (let flushAll = (case GetPostForm c ''flush_all'' of
                             None \<Rightarrow> False
                           | Some flushAllValue \<Rightarrow>
                               strings_ToLower ext flushAllValue = ''true'');
               fileName = Sprintf_v_s (UnixNano ext) (Filename fileHeader);
               dst = filepath_Join ext (ProcessingPcapsBasePath ext) fileName
           in after [Call_SaveUploadedFile (Filename fileHeader) dst]
                (case SaveUploadedFile ext fileHeader dst of
                   Some err \<Rightarrow> log_Panic ''failed to save uploaded file''
                 | None \<Rightarrow>
                     after [Call_ImportPcap fileName flushAll]
                       (case ImportPcap (PcapImporter applicationContext) fileName flushAll of
                          Inl err \<Rightarrow> unprocessableEntity err
                        | Inr sessionID \<Rightarrow>
                            (let response = JObj [(''session'', JStr (Hex ext sessionID))]
                             in followed_by (c_JSON StatusAccepted response)
                                  [Notify ''pcap.upload'' response])))))"

definition put_capture_local :: "ApplicationContext \<Rightarrow> jvalue HandlerFunc" where
  "put_capture_local applicationContext c =
     (case ShouldBindJSON c of
        Inl err \<Rightarrow> badRequest err
      | Inr captureOptions \<Rightarrow>
          after [Call_StartLocalCapture captureOptions]
            (case StartLocalCapture (PcapImporter applicationContext) captureOptions of
               Some err \<Rightarrow> badRequest err
             | None \<Rightarrow>
                 (let response = JObj [(''capture'', JStr ''local'')]
                  in followed_by (c_JSON StatusOK response)
                       [Notify ''capture.local'' response])))"

definition delete_capture :: "ApplicationContext \<Rightarrow> 'b HandlerFunc" where
  "delete_capture applicationContext c =
     after [Call_StopCapture]
       (case StopCapture (PcapImporter applicationContext) of
          Some err \<Rightarrow> badRequest err
        | None \<Rightarrow>
            (let response = JObj [(''capture'', JStr ''stop'')]
             in followed_by (c_JSON StatusOK response) [Notify ''capture.stop'' response]))"

definition post_capture_local_interfaces :: "ApplicationContext \<Rightarrow> 'b HandlerFunc" where
  "post_capture_local_interfaces applicationContext c =
     after [Call_ListInterfaces]
       (case ListInterfaces (PcapImporter applicationContext) of
          Inl err \<Rightarrow> badRequest err
        | Inr interfaces \<Rightarrow> c_JSON StatusOK interfaces)"

text \<open>
  The rotation interval is a \<^verbatim>\<open>time.Duration\<close>, a 64-bit integer; its product with
  \<^verbatim>\<open>secondsToNano\<close> wraps around.
\<close>

record IntervalRequest =
  RotationInterval :: "64 word"

definition put_capture_interval ::
  "Externals \<Rightarrow> ApplicationContext \<Rightarrow> IntervalRequest HandlerFunc" where
  "put_capture_interval ext applicationContext c =
     (case ShouldBindJSON c of
        Inl err \<Rightarrow> badRequest err
      | Inr request \<Rightarrow>
          after [Call_SetSessionRotationInterval (RotationInterval request * secondsToNano ext)]
            (c_JSON StatusOK (JObj [(''result'', JStr ''ok'')])))"

record RemoteCaptureRequest =
  SSHConfig :: jvalue
  CaptureOptions :: jvalue

definition put_capture_remote :: "ApplicationContext \<Rightarrow> RemoteCaptureRequest HandlerFunc" where
  "put_capture_remote applicationContext c =
     (case ShouldBindJSON c of
        Inl err \<Rightarrow> badRequest err
      | Inr request \<Rightarrow>
          after [Call_StartRemoteCapture (SSHConfig request) (CaptureOptions request)]
            (case StartRemoteCapture (PcapImporter applicationContext) (SSHConfig request)
                    (CaptureOptions request) of
               Some err \<Rightarrow> badRequest err
             | None \<Rightarrow>
                 (let response = JObj [(''capture'', JStr ''remote'')]
                  in followed_by (c_JSON StatusOK response)
                       [Notify ''capture.remote'' response])))"

definition post_capture_remote_interfaces :: "ApplicationContext \<Rightarrow> jvalue HandlerFunc" where
  "post_capture_remote_interfaces applicationContext c =
     (case ShouldBindJSON c of
        Inl err \<Rightarrow> badRequest err
      | Inr sshConfig \<Rightarrow>
          after [Call_ListRemoteInterfaces sshConfig]
            (case ListRemoteInterfaces (PcapImporter applicationContext) sshConfig of
               Inl err \<Rightarrow> badRequest err
             | Inr interfaces \<Rightarrow> c_JSON StatusOK interfaces))"

definition get_pcap_sessions :: "ApplicationContext \<Rightarrow> 'b HandlerFunc" where
  "get_pcap_sessions applicationContext c =
     after [Call_GetSessions] (success (GetSessions (PcapImporter applicationContext)))"

definition get_pcap_connections_id_download ::
  "Externals \<Rightarrow> ApplicationContext \<Rightarrow> 'b HandlerFunc" where
  "get_pcap_connections_id_download ext applicationContext c =
     (case RowIDFromHex ext (Param c ''id'') of
        Inl err \<Rightarrow> badRequest err
      | Inr connectionID \<Rightarrow>
          (let pcapPath = filepath_Join ext (ConnectionPcapsBasePath ext)
                            (Hex ext connectionID @ ''.pcap'')
           in if FileExists ext pcapPath
              then c_FileAttachment pcapPath (Hex ext connectionID @ ''.pcap'')
              else notFound (JObj [(''error'', JStr ''not found''),
                                   (''connection'', JRowID connectionID)])))"

definition get_connections :: "ApplicationContext \<Rightarrow> jvalue HandlerFunc" where
  "get_connections applicationContext c =
     (case ShouldBindQuery c of
        Inl err \<Rightarrow> badRequest err
      | Inr filter' \<Rightarrow>
          after [Call_GetConnections filter']
            (success (GetConnections (ConnectionsController applicationContext)
                        (as_context c) filter')))"

definition get_searches :: "ApplicationContext \<Rightarrow> 'b HandlerFunc" where
  "get_searches applicationContext c =
     after [Call_GetPerformedSearches]
       (success (GetPerformedSearches (SearchController applicationContext)))"

definition get_streams_id_download ::
  "Externals \<Rightarrow> ApplicationContext \<Rightarrow> jvalue HandlerFunc" where
  "get_streams_id_download ext applicationContext c =
     (case RowIDFromHex ext (Param c ''id'') of
        Inl err \<Rightarrow> badRequest err
      | Inr id' \<Rightarrow>
          (case ShouldBindQuery c of
             Inl err \<Rightarrow> badRequest err
           | Inr format \<Rightarrow>
               after [Call_DownloadConnectionMessages id' format]
                 (case DownloadConnectionMessages
                         (ConnectionStreamsController applicationContext)
                         (as_context c) id' format of
                    None \<Rightarrow>
                      notFound (JObj [(''error'', JStr ''not found''),
                                      (''connection'', JRowID id')])
                  | Some blob \<Rightarrow> c_String StatusOK blob)))"

definition get_services :: "ApplicationContext \<Rightarrow> 'b HandlerFunc" where
  "get_services applicationContext c =
     after [Call_GetServices] (success (GetServices (ServicesController applicationContext)))"

definition put_services :: "ApplicationContext \<Rightarrow> jvalue HandlerFunc" where
  "put_services applicationContext c =
     (case ShouldBindJSON c of
        Inl err \<Rightarrow> badRequest err
      | Inr service \<Rightarrow>
          after [Call_SetService service]
            (case SetService (ServicesController applicationContext) (as_context c) service of
               None \<Rightarrow> followed_by (success service) [Notify ''services.edit'' service]
             | Some err \<Rightarrow> unprocessableEntity err))"

definition delete_services :: "ApplicationContext \<Rightarrow> jvalue HandlerFunc" where
  "delete_services applicationContext c =
     (case ShouldBindJSON c of
        Inl err \<Rightarrow> badRequest err
      | Inr service \<Rightarrow>
          after [Call_DeleteService service]
            (case DeleteService (ServicesController applicationContext) (as_context c)
                    service of
               None \<Rightarrow> followed_by (success service) [Notify ''services.edit'' service]
             | Some err \<Rightarrow> unprocessableEntity err))"

definition get_statistics :: "ApplicationContext \<Rightarrow> jvalue HandlerFunc" where
  "get_statistics applicationContext c =
     (case ShouldBindQuery c of
        Inl err \<Rightarrow> badRequest err
      | Inr filter' \<Rightarrow>
          after [Call_GetStatistics filter']
            (success (GetStatistics (StatisticsController applicationContext)
                        (as_context c) filter')))"

definition get_statistics_totals :: "ApplicationContext \<Rightarrow> jvalue HandlerFunc" where
  "get_statistics_totals applicationContext c =
     (case ShouldBindQuery c of
        Inl err \<Rightarrow> badRequest err
      | Inr filter' \<Rightarrow>
          after [Call_GetTotalStatistics filter']
            (success (GetTotalStatistics (StatisticsController applicationContext)
                        (as_context c) filter')))"

definition get_resources_system :: "ResourcesController \<Rightarrow> 'b HandlerFunc" where
  "get_resources_system resourcesController c =
     after [Call_GetSystemStats] (success (GetSystemStats resourcesController (as_context c)))"

definition get_resources_process :: "ResourcesController \<Rightarrow> 'b HandlerFunc" where
  "get_resources_process resourcesController c =
     after [Call_GetProcessStats]
       (success (GetProcessStats resourcesController (as_context c)))"

subsection \<open>The router\<close>

text \<open>
  \<^verbatim>\<open>gin.BasicAuth(accounts)\<close> belongs to the web framework. It reads the
  \<^verbatim>\<open>Authorization\<close> header of the request, and either stops the chain with a status
  and no body (401 when the header matches none of the accounts; 500, through
  \<^verbatim>\<open>gin.Recovery()\<close>, when it panics on an empty list of accounts) or lets the chain
  go on. Which of the two it does, for given accounts and header, is the parameter
  \<open>refusal\<close>: the status it stops the chain with, if it does.
\<close>

definition BasicAuth ::
  "(Accounts \<Rightarrow> string option \<Rightarrow> nat option) \<Rightarrow> Accounts
     \<Rightarrow> 'b HandlerFunc \<Rightarrow> 'b HandlerFunc" where
  "BasicAuth refusal accounts next c =
     (case refusal accounts (Authorization c) of
        Some code \<Rightarrow> c_AbortWithStatus code
      | None \<Rightarrow> next c)"

text \<open>
  A request to a route of the /api group: the route it was matched to, with the gin
  context bound to the type that the route's handler binds.
\<close>

datatype api_request =
    GET_api_status "unit Context"
  | GET_api_rules "unit Context"
  | POST_api_rules "Rule Context"
  | GET_api_rules_id "unit Context"
  | PUT_api_rules_id "Rule Context"
  | POST_api_pcap_upload "unit Context"
  | POST_api_pcap_file "PcapFileRequest Context"
  | PUT_api_capture_local "jvalue Context"
  | DELETE_api_capture "unit Context"
  | POST_api_capture_local_interfaces "unit Context"
  | PUT_api_capture_interval "IntervalRequest Context"
  | PUT_api_capture_remote "RemoteCaptureRequest Context"
  | POST_api_capture_remote_interfaces "jvalue Context"
  | GET_api_pcap_sessions "unit Context"
  | GET_api_pcap_sessions_id "unit Context"
  | GET_api_pcap_sessions_id_download "unit Context"
  | DELETE_api_pcap_sessions_id "unit Context"
  | GET_api_pcap_connections_id_download "unit Context"
  | GET_api_connections "jvalue Context"
  | GET_api_connections_id "unit Context"
  | POST_api_connections_id_action "string Context"
  | GET_api_searches "unit Context"
  | POST_api_searches_perform "SearchOptions Context"
  | GET_api_streams_id "jvalue Context"
  | GET_api_streams_id_download "jvalue Context"
  | GET_api_services "unit Context"
  | PUT_api_services "jvalue Context"
  | DELETE_api_services "jvalue Context"
  | GET_api_statistics "jvalue Context"
  | GET_api_statistics_totals "jvalue Context"
  | GET_api_resources_system "unit Context"
  | GET_api_resources_process "unit Context"

text \<open>A request to the router: a page, the setup, the websocket, or a route of /api.\<close>

datatype request =
    GET_page "unit Context"
  | POST_setup "Settings Context"
  | GET_websocket "unit Context"
  | Api api_request

text \<open>
  The router: each route of the /api group runs its handler behind the two middlewares
  of the group; the pages, the setup and the websocket are registered on the router
  itself. Besides the application context \<open>ctx\<close> the router is created with the
  notification controller \<open>nc\<close> and the resources controller \<open>rc\<close>.
\<close>

fun api_route ::
  "(Accounts \<Rightarrow> string option \<Rightarrow> nat option) \<Rightarrow> Externals \<Rightarrow> ApplicationContext
     \<Rightarrow> ResourcesController \<Rightarrow> api_request \<Rightarrow> outcome" where
  "api_route refusal ext ctx rc (GET_api_status c)
     = api (BasicAuth refusal) ctx (get_status ctx) c"
| "api_route refusal ext ctx rc (GET_api_rules c)
     = api (BasicAuth refusal) ctx (get_rules ctx) c"
| "api_route refusal ext ctx rc (POST_api_rules c)
     = api (BasicAuth refusal) ctx (post_rules ctx) c"
| "api_route refusal ext ctx rc (GET_api_rules_id c)
     = api (BasicAuth refusal) ctx (get_rules_id ext ctx) c"
| "api_route refusal ext ctx rc (PUT_api_rules_id c)
     = api (BasicAuth refusal) ctx (put_rules_id ext ctx) c"
| "api_route refusal ext ctx rc (POST_api_pcap_upload c)
     = api (BasicAuth refusal) ctx (post_pcap_upload ext ctx) c"
| "api_route refusal ext ctx rc (POST_api_pcap_file c)
     = api (BasicAuth refusal) ctx (post_pcap_file ext ctx) c"
| "api_route refusal ext ctx rc (PUT_api_capture_local c)
     = api (BasicAuth refusal) ctx (put_capture_local ctx) c"
| "api_route refusal ext ctx rc (DELETE_api_capture c)
     = api (BasicAuth refusal) ctx (delete_capture ctx) c"
| "api_route refusal ext ctx rc (POST_api_capture_local_interfaces c)
     = api (BasicAuth refusal) ctx (post_capture_local_interfaces ctx) c"
| "api_route refusal ext ctx rc (PUT_api_capture_interval c)
     = api (BasicAuth refusal) ctx (put_capture_interval ext ctx) c"
| "api_route refusal ext ctx rc (PUT_api_capture_remote c)
     = api (BasicAuth refusal) ctx (put_capture_remote ctx) c"
| "api_route refusal ext ctx rc (POST_api_capture_remote_interfaces c)
     = api (BasicAuth refusal) ctx (post_capture_remote_interfaces ctx) c"
| "api_route refusal ext ctx rc (GET_api_pcap_sessions c)
     = api (BasicAuth refusal) ctx (get_pcap_sessions ctx) c"
| "api_route refusal ext ctx rc (GET_api_pcap_sessions_id c)
     = api (BasicAuth refusal) ctx (get_pcap_sessions_id ext ctx) c"
| "api_route refusal ext ctx rc (GET_api_pcap_sessions_id_download c)
     = api (BasicAuth refusal) ctx (get_pcap_sessions_id_download ext ctx) c"
| "api_route refusal ext ctx rc (DELETE_api_pcap_sessions_id c)
     = api (BasicAuth refusal) ctx (delete_pcap_sessions_id ext ctx) c"
| "api_route refusal ext ctx rc (GET_api_pcap_connections_id_download c)
     = api (BasicAuth refusal) ctx (get_pcap_connections_id_download ext ctx) c"
| "api_route refusal ext ctx rc (GET_api_connections c)
     = api (BasicAuth refusal) ctx (get_connections ctx) c"
| "api_route refusal ext ctx rc (GET_api_connections_id c)
     = api (BasicAuth refusal) ctx (get_connections_id ext ctx) c"
| "api_route refusal ext ctx rc (POST_api_connections_id_action c)
     = api (BasicAuth refusal) ctx (post_connections_id_action ext ctx) c"
| "api_route refusal ext ctx rc (GET_api_searches c)
     = api (BasicAuth refusal) ctx (get_searches ctx) c"
| "api_route refusal ext ctx rc (POST_api_searches_perform c)
     = api (BasicAuth refusal) ctx (post_searches_perform ext ctx) c"
| "api_route refusal ext ctx rc (GET_api_streams_id c)
     = api (BasicAuth refusal) ctx (get_streams_id ext ctx) c"
| "api_route refusal ext ctx rc (GET_api_streams_id_download c)
     = api (BasicAuth refusal) ctx (get_streams_id_download ext ctx) c"
| "api_route refusal ext ctx rc (GET_api_services c)
     = api (BasicAuth refusal) ctx (get_services ctx) c"
| "api_route refusal ext ctx rc (PUT_api_services c)
     = api (BasicAuth refusal) ctx (put_services ctx) c"
| "api_route refusal ext ctx rc (DELETE_api_services c)
     = api (BasicAuth refusal) ctx (delete_services ctx) c"
| "api_route refusal ext ctx rc (GET_api_statistics c)
     = api (BasicAuth refusal) ctx (get_statistics ctx) c"
| "api_route refusal ext ctx rc (GET_api_statistics_totals c)
     = api (BasicAuth refusal) ctx (get_statistics_totals ctx) c"
| "api_route refusal ext ctx rc (GET_api_resources_system c)
     = api (BasicAuth refusal) ctx (get_resources_system rc) c"
| "api_route refusal ext ctx rc (GET_api_resources_process c)
     = api (BasicAuth refusal) ctx (get_resources_process rc) c"

fun router ::
  "(Accounts \<Rightarrow> string option \<Rightarrow> nat option) \<Rightarrow> Externals \<Rightarrow> ApplicationContext
     \<Rightarrow> NotificationController \<Rightarrow> ResourcesController \<Rightarrow> request \<Rightarrow> outcome" where
  "router refusal ext ctx nc rc (GET_page c) = get_page c"
| "router refusal ext ctx nc rc (POST_setup c) = post_setup ctx c"
| "router refusal ext ctx nc rc (GET_websocket c) = get_websocket nc c"
| "router refusal ext ctx nc rc (Api r) = api_route refusal ext ctx rc r"

text \<open>A request to the /api group with other credentials, all else being the same.\<close>

fun with_credentials :: "string option \<Rightarrow> api_request \<Rightarrow> api_request" where
  "with_credentials credentials (GET_api_status c)
     = GET_api_status (c\<lparr>Authorization := credentials\<rparr>)"
| "with_credentials credentials (GET_api_rules c)
     = GET_api_rules (c\<lparr>Authorization := credentials\<rparr>)"
| "with_credentials credentials (POST_api_rules c)
     = POST_api_rules (c\<lparr>Authorization := credentials\<rparr>)"
| "with_credentials credentials (GET_api_rules_id c)
     = GET_api_rules_id (c\<lparr>Authorization := credentials\<rparr>)"
| "with_credentials credentials (PUT_api_rules_id c)
     = PUT_api_rules_id (c\<lparr>Authorization := credentials\<rparr>)"
| "with_credentials credentials (POST_api_pcap_upload c)
     = POST_api_pcap_upload (c\<lparr>Authorization := credentials\<rparr>)"
| "with_credentials credentials (POST_api_pcap_file c)
     = POST_api_pcap_file (c\<lparr>Authorization := credentials\<rparr>)"
| "with_credentials credentials (PUT_api_capture_local c)
     = PUT_api_capture_local (c\<lparr>Authorization := credentials\<rparr>)"
| "with_credentials credentials (DELETE_api_capture c)
     = DELETE_api_capture (c\<lparr>Authorization := credentials\<rparr>)"
| "with_credentials credentials (POST_api_capture_local_interfaces c)
     = POST_api_capture_local_interfaces (c\<lparr>Authorization := credentials\<rparr>)"
| "with_credentials credentials (PUT_api_capture_interval c)
     = PUT_api_capture_interval (c\<lparr>Authorization := credentials\<rparr>)"
| "with_credentials credentials (PUT_api_capture_remote c)
     = PUT_api_capture_remote (c\<lparr>Authorization := credentials\<rparr>)"
| "with_credentials credentials (POST_api_capture_remote_interfaces c)
     = POST_api_capture_remote_interfaces (c\<lparr>Authorization := credentials\<rparr>)"
| "with_credentials credentials (GET_api_pcap_sessions c)
     = GET_api_pcap_sessions (c\<lparr>Authorization := credentials\<rparr>)"
| "with_credentials credentials (GET_api_pcap_sessions_id c)
     = GET_api_pcap_sessions_id (c\<lparr>Authorization := credentials\<rparr>)"
| "with_credentials credentials (GET_api_pcap_sessions_id_download c)
     = GET_api_pcap_sessions_id_download (c\<lparr>Authorization := credentials\<rparr>)"
| "with_credentials credentials (DELETE_api_pcap_sessions_id c)
     = DELETE_api_pcap_sessions_id (c\<lparr>Authorization := credentials\<rparr>)"
| "with_credentials credentials (GET_api_pcap_connections_id_download c)
     = GET_api_pcap_connections_id_download (c\<lparr>Authorization := credentials\<rparr>)"
| "with_credentials credentials (GET_api_connections c)
     = GET_api_connections (c\<lparr>Authorization := credentials\<rparr>)"
| "with_credentials credentials (GET_api_connections_id c)
     = GET_api_connections_id (c\<lparr>Authorization := credentials\<rparr>)"
| "with_credentials credentials (POST_api_connections_id_action c)
     = POST_api_connections_id_action (c\<lparr>Authorization := credentials\<rparr>)"
| "with_credentials credentials (GET_api_searches c)
     = GET_api_searches (c\<lparr>Authorization := credentials\<rparr>)"
| "with_credentials credentials (POST_api_searches_perform c)
     = POST_api_searches_perform (c\<lparr>Authorization := credentials\<rparr>)"
| "with_credentials credentials (GET_api_streams_id c)
     = GET_api_streams_id (c\<lparr>Authorization := credentials\<rparr>)"
| "with_credentials credentials (GET_api_streams_id_download c)
     = GET_api_streams_id_download (c\<lparr>Authorization := credentials\<rparr>)"
| "with_credentials credentials (GET_api_services c)
     = GET_api_services (c\<lparr>Authorization := credentials\<rparr>)"
| "with_credentials credentials (PUT_api_services c)
     = PUT_api_services (c\<lparr>Authorization := credentials\<rparr>)"
| "with_credentials credentials (DELETE_api_services c)
     = DELETE_api_services (c\<lparr>Authorization := credentials\<rparr>)"
| "with_credentials credentials (GET_api_statistics c)
     = GET_api_statistics (c\<lparr>Authorization := credentials\<rparr>)"
| "with_credentials credentials (GET_api_statistics_totals c)
     = GET_api_statistics_totals (c\<lparr>Authorization := credentials\<rparr>)"
| "with_credentials credentials (GET_api_resources_system c)
     = GET_api_resources_system (c\<lparr>Authorization := credentials\<rparr>)"
| "with_credentials credentials (GET_api_resources_process c)
     = GET_api_resources_process (c\<lparr>Authorization := credentials\<rparr>)"

text \<open>
  The controller methods that are handed the request answer alike whatever credentials
  the request carries: a property of the controllers, which are outside this file.
\<close>

definition controllers_ignore_credentials ::
  "ApplicationContext \<Rightarrow> ResourcesController \<Rightarrow> bool" where
  "controllers_ignore_credentials ctx rc =
     (\<forall>k credentials.
        AddRule (RulesManager ctx) (k\<lparr>Request_Authorization := credentials\<rparr>)
          = AddRule (RulesManager ctx) k
      \<and> UpdateRule (RulesManager ctx) (k\<lparr>Request_Authorization := credentials\<rparr>)
          = UpdateRule (RulesManager ctx) k
      \<and> GetConnections (ConnectionsController ctx) (k\<lparr>Request_Authorization := credentials\<rparr>)
          = GetConnections (ConnectionsController ctx) k
      \<and> GetConnection (ConnectionsController ctx) (k\<lparr>Request_Authorization := credentials\<rparr>)
          = GetConnection (ConnectionsController ctx) k
      \<and> SetHidden (ConnectionsController ctx) (k\<lparr>Request_Authorization := credentials\<rparr>)
          = SetHidden (ConnectionsController ctx) k
      \<and> SetMarked (ConnectionsController ctx) (k\<lparr>Request_Authorization := credentials\<rparr>)
          = SetMarked (ConnectionsController ctx) k
      \<and> SetComment (ConnectionsController ctx) (k\<lparr>Request_Authorization := credentials\<rparr>)
          = SetComment (ConnectionsController ctx) k
      \<and> GetConnectionMessages (ConnectionStreamsController ctx)
            (k\<lparr>Request_Authorization := credentials\<rparr>)
          = GetConnectionMessages (ConnectionStreamsController ctx) k
      \<and> DownloadConnectionMessages (ConnectionStreamsController ctx)
            (k\<lparr>Request_Authorization := credentials\<rparr>)
          = DownloadConnectionMessages (ConnectionStreamsController ctx) k
      \<and> PerformSearch (SearchController ctx) (k\<lparr>Request_Authorization := credentials\<rparr>)
          = PerformSearch (SearchController ctx) k
      \<and> SetService (ServicesController ctx) (k\<lparr>Request_Authorization := credentials\<rparr>)
          = SetService (ServicesController ctx) k
      \<and> DeleteService (ServicesController ctx) (k\<lparr>Request_Authorization := credentials\<rparr>)
          = DeleteService (ServicesController ctx) k
      \<and> GetStatistics (StatisticsController ctx) (k\<lparr>Request_Authorization := credentials\<rparr>)
          = GetStatistics (StatisticsController ctx) k
      \<and> GetTotalStatistics (StatisticsController ctx)
            (k\<lparr>Request_Authorization := credentials\<rparr>)
          = GetTotalStatistics (StatisticsController ctx) k
      \<and> GetSystemStats rc (k\<lparr>Request_Authorization := credentials\<rparr>) = GetSystemStats rc k
      \<and> GetProcessStats rc (k\<lparr>Request_Authorization := credentials\<rparr>)
          = GetProcessStats rc k)"

subsection \<open>Reading an outcome\<close>

text \<open>The calls and file operations of an outcome, without the notifications.\<close>

fun is_Notify :: "effect \<Rightarrow> bool" where
  "is_Notify (Notify event payload) = True"
| "is_Notify e = False"

definition notifications :: "outcome \<Rightarrow> effect list" where
  "notifications out = filter is_Notify (effects out)"

definition calls :: "outcome \<Rightarrow> effect list" where
  "calls out = filter (\<lambda>e. \<not> is_Notify e) (effects out)"

text \<open>
  The calls that change a stored connection: the three mutators of the connections
  controller. Its other two methods, \<^verbatim>\<open>GetConnections\<close> and \<^verbatim>\<open>GetConnection\<close>, read.
\<close>

fun is_connection_mutation :: "effect \<Rightarrow> bool" where
  "is_connection_mutation (Call_SetHidden i hidden) = True"
| "is_connection_mutation (Call_SetMarked i marked) = True"
| "is_connection_mutation (Call_SetComment i comment) = True"
| "is_connection_mutation e = False"

subsection \<open>A concrete deployment\<close>

text \<open>
  One instance of the collaborators, on which the theorems are exercised: four row ids
  with their hex forms, sessions 1 (running), 2 (completed) and 3 (cancelled), a rule 1
  named \<open>flag\<close> whose name no other rule may take, a connection 1, and a file system
  with one capture to import, both PCAP files of session 1 and the PCAPNG of session 2.
\<close>

definition hex1 :: string where "hex1 = ''000000000000000000000001''"
definition hex2 :: string where "hex2 = ''000000000000000000000002''"
definition hex3 :: string where "hex3 = ''000000000000000000000003''"
definition hex4 :: string where "hex4 = ''000000000000000000000004''"

definition example_files :: "string list" where
  "example_files =
     [''/captures/a.pcap'', ''pcaps/'' @ hex1 @ ''.pcap'', ''pcaps/'' @ hex1 @ ''.pcapng'',
      ''pcaps/'' @ hex2 @ ''.pcapng'']"

definition example_ext :: Externals where
  "example_ext =
     \<lparr>RowIDFromHex = (\<lambda>hex. if hex = hex1 then Inr 1 else if hex = hex2 then Inr 2
                           else if hex = hex3 then Inr 3 else if hex = hex4 then Inr 4
                           else Inl ''the provided hex string is not a valid ObjectID''),
      Hex = (\<lambda>i. if i = 1 then hex1 else if i = 2 then hex2
                 else if i = 3 then hex3 else hex4),
      TextSearch_isZero =
        (\<lambda>t. Terms t = None \<and> ExcludedTerms t = None \<and> ExactPhrase t = ''''),
      RegexSearch_isZero =
        (\<lambda>r. Pattern r = '''' \<and> NotPattern r = '''' \<and> RegexSearch.more r = JNull),
      FileExists = (\<lambda>path. path \<in> set example_files),
      CopyFile = (\<lambda>dst src. None),
      PcapsBasePath = ''pcaps'',
      ProcessingPcapsBasePath = ''pcaps/processing'',
      ConnectionPcapsBasePath = ''pcaps/connections'',
      secondsToNano = 1000000000,
      os_Remove = (\<lambda>path. None),
      SaveUploadedFile = (\<lambda>fileHeader dst. None),
      filepath_Join = (\<lambda>dir name. dir @ ''/'' @ name),
      filepath_Base = (\<lambda>path. if path = ''/captures/a.pcap'' then ''a.pcap'' else path),
      strings_ToLower = (\<lambda>s. if s = ''TRUE'' \<or> s = ''True'' then ''true'' else s),
      UnixNano = 1700000000000000042\<rparr>"

definition flag_rule :: Rule where
  "flag_rule = JObj [(''name'', JStr ''flag''), (''color'', JStr ''#e53935'')]"

definition other_rule :: Rule where
  "other_rule = JObj [(''name'', JStr ''login''), (''color'', JStr ''#00897b'')]"

definition example_rules :: RulesManager where
  "example_rules =
     \<lparr>GetRules = JArr [flag_rule],
      AddRule = (\<lambda>k rule. if rule = flag_rule then Inl ''rule name must be unique''
                           else Inr 2),
      GetRule = (\<lambda>i. if i = 1 then Some flag_rule else None),
      UpdateRule = (\<lambda>k i rule. if i = 2 \<and> rule = flag_rule
                                 then Inl ''rule name must be unique''
                                 else Inr (i = 1 \<or> i = 2))\<rparr>"

definition example_sessions :: "RowID \<rightharpoonup> SessionState" where
  "example_sessions =
     [1 \<mapsto> \<lparr>completed_at = None, cancelled = False\<rparr>,
      2 \<mapsto> \<lparr>completed_at = Some 1700000000, cancelled = False\<rparr>,
      3 \<mapsto> \<lparr>completed_at = None, cancelled = True\<rparr>]"

definition example_importer :: PcapImporter where
  "example_importer =
     \<lparr>ImportPcap = (\<lambda>fileName flushAll. if flushAll then Inr 3 else Inl ''invalid file format''),
      StartLocalCapture = (\<lambda>captureOptions. None),
      StopCapture = Some ''capture is not running'',
      ListInterfaces = Inr (JArr [JStr ''eth0'']),
      StartRemoteCapture = (\<lambda>sshConfig captureOptions. Some ''ssh: handshake failed''),
      ListRemoteInterfaces = (\<lambda>sshConfig. Inl ''ssh: handshake failed''),
      GetSessions = JArr [JRowID 1, JRowID 2, JRowID 3],
      GetSession = (\<lambda>i. if i = 1 \<or> i = 2 \<or> i = 3 then Some (JObj [(''id'', JRowID i)])
                        else None),
      CancelSession = (\<lambda>i. fst (cancel_session example_sessions i))\<rparr>"

definition example_connections :: ConnectionsController where
  "example_connections =
     \<lparr>GetConnections = (\<lambda>k filter'. JArr [JObj [(''id'', JRowID 1)]]),
      GetConnection = (\<lambda>k i. if i = 1 then Some (JObj [(''id'', JRowID i)]) else None),
      SetHidden = (\<lambda>k i hidden. i = 1),
      SetMarked = (\<lambda>k i marked. i = 1),
      SetComment = (\<lambda>k i comment. i = 1)\<rparr>"

definition example_context :: ApplicationContext where
  "example_context =
     \<lparr>IsConfigured = True,
      Config = \<lparr>AuthRequired = False\<rparr>,
      Accounts = [(''admin'', ''secret'')],
      Status = JObj [(''version'', JStr ''1.21'')],
      RulesManager = example_rules,
      PcapImporter = example_importer,
      ConnectionsController = example_connections,
      ConnectionStreamsController =
        \<lparr>GetConnectionMessages = (\<lambda>k i format. if i = 1 then Some (JArr []) else None),
         DownloadConnectionMessages = (\<lambda>k i format. if i = 1 then Some ''GET / HTTP/1.1''
                                                    else None)\<rparr>,
      SearchController =
        \<lparr>GetPerformedSearches = JArr [],
         PerformSearch = (\<lambda>k options. JObj [(''affected_connections'', JArr [])])\<rparr>,
      ServicesController =
        \<lparr>GetServices = JObj [],
         SetService = (\<lambda>k service. None),
         DeleteService = (\<lambda>k service. Some ''service not found'')\<rparr>,
      StatisticsController =
        \<lparr>GetStatistics = (\<lambda>k filter'. JArr []),
         GetTotalStatistics = (\<lambda>k filter'. JObj [])\<rparr>\<rparr>"

definition example_notifications :: NotificationController where
  "example_notifications = \<lparr>NotificationHandler = (\<lambda>k. None)\<rparr>"

definition example_resources :: ResourcesController where
  "example_resources =
     \<lparr>GetSystemStats = (\<lambda>k. JObj [(''cpu'', JNum 3)]),
      GetProcessStats = (\<lambda>k. JObj [(''rss'', JNum 42)])\<rparr>"

text \<open>
  A refusal for the router: 401 unless the header is one of the accounts, written
  \<open>user:password\<close>.
\<close>

definition example_refusal :: "Accounts \<Rightarrow> string option \<Rightarrow> nat option" where
  "example_refusal accounts header =
     (case header of
        None \<Rightarrow> Some StatusUnauthorized
      | Some credentials \<Rightarrow>
          if credentials \<in> set (map (\<lambda>(user, password). user @ '':'' @ password) accounts)
          then None
          else Some StatusUnauthorized)"

text \<open>
  The same as a stand-in for \<^verbatim>\<open>gin.BasicAuth\<close>, for the middleware taken alone: the
  header must be one of the accounts, written \<open>user:password\<close>; otherwise 401 and the
  chain stops.
\<close>

definition example_BasicAuth :: "Accounts \<Rightarrow> 'b HandlerFunc \<Rightarrow> 'b HandlerFunc" where
  "example_BasicAuth accounts next c =
     (case Authorization c of
        None \<Rightarrow> c_AbortWithStatus StatusUnauthorized
      | Some credentials \<Rightarrow>
          if credentials \<in> set (map (\<lambda>(user, password). user @ '':'' @ password) accounts)
          then next c
          else c_AbortWithStatus StatusUnauthorized)"

text \<open>A request with path parameters \<open>id\<close> and \<open>action\<close> and the given bindings.\<close>

definition request :: "string \<Rightarrow> string \<Rightarrow> error + 'b \<Rightarrow> error + 'b \<Rightarrow> 'b Context" where
  "request id_param action_param json query =
     \<lparr>Param = (\<lambda>name. if name = ''id'' then id_param
                        else if name = ''action'' then action_param else ''''),
      Host = ''caronte.local:3333'',
      Authorization = None,
      ShouldBindJSON = json,
      ShouldBindQuery = query,
      FormFile = (\<lambda>name. Inl ''http: no such file''),
      GetPostForm = (\<lambda>key. None)\<rparr>"

definition unbound :: "error + 'b" where
  "unbound = Inl ''EOF''"

text \<open>Three search payloads and the settings of a first setup.\<close>

definition phrase_and_terms :: SearchOptions where
  "phrase_and_terms =
     \<lparr>TextSearch = \<lparr>Terms = Some [''flag''], ExcludedTerms = None,
                    ExactPhrase = ''flag{'', \<dots> = JNull\<rparr>,
      RegexSearch = \<lparr>Pattern = '''', NotPattern = '''', \<dots> = JNull\<rparr>\<rparr>"

definition terms_only :: SearchOptions where
  "terms_only =
     \<lparr>TextSearch = \<lparr>Terms = Some [''flag''], ExcludedTerms = Some [''test''],
                    ExactPhrase = '''', \<dots> = JNull\<rparr>,
      RegexSearch = \<lparr>Pattern = '''', NotPattern = '''', \<dots> = JNull\<rparr>\<rparr>"

definition both_categories :: SearchOptions where
  "both_categories =
     \<lparr>TextSearch = \<lparr>Terms = Some [''flag''], ExcludedTerms = None,
                    ExactPhrase = '''', \<dots> = JNull\<rparr>,
      RegexSearch = \<lparr>Pattern = ''fl.g'', NotPattern = '''', \<dots> = JNull\<rparr>\<rparr>"

definition example_settings :: Settings where
  "example_settings =
     \<lparr>Settings_Config = \<lparr>AuthRequired = True\<rparr>,
      Settings_Accounts = [(''admin'', ''secret'')]\<rparr>"

section \<open>Properties of the routes\<close>

lemmas status_defs =
  StatusOK_def StatusAccepted_def StatusBadRequest_def StatusUnauthorized_def
  StatusNotFound_def StatusUnprocessableEntity_def StatusInternalServerError_def
  StatusServiceUnavailable_def

lemmas response_defs =
  c_JSON_def success_def badRequest_def unprocessableEntity_def notFound_def
  c_FileAttachment_def c_AbortWithStatus_def log_Panic_def after_def followed_by_def

subsection \<open>The concrete deployment, evaluated\<close>

lemma request_simps:
  "Param (request id_param action_param json query) ''id'' = id_param"
  "Param (request id_param action_param json query) ''action'' = action_param"
  "Host (request id_param action_param json query) = ''caronte.local:3333''"
  "Authorization (request id_param action_param json query) = None"
  "ShouldBindJSON (request id_param action_param json query) = json"
  "ShouldBindQuery (request id_param action_param json query) = query"
  by (simp_all add: request_def)

lemma example_ext_simps:
  "RowIDFromHex example_ext hex1 = Inr 1"
  "RowIDFromHex example_ext hex2 = Inr 2"
  "RowIDFromHex example_ext hex3 = Inr 3"
  "RowIDFromHex example_ext hex4 = Inr 4"
  "RowIDFromHex example_ext ''xyz'' = Inl ''the provided hex string is not a valid ObjectID''"
  "Hex example_ext 1 = hex1"
  "Hex example_ext 2 = hex2"
  "Hex example_ext 3 = hex3"
  "Hex example_ext 4 = hex4"
  "PcapsBasePath example_ext = ''pcaps''"
  "ProcessingPcapsBasePath example_ext = ''pcaps/processing''"
  "filepath_Join example_ext dir name = dir @ ''/'' @ name"
  "filepath_Base example_ext ''/captures/a.pcap'' = ''a.pcap''"
  "UnixNano example_ext = 1700000000000000042"
  "CopyFile example_ext dst src = None"
  "os_Remove example_ext path = None"
  "FileExists example_ext ''/captures/a.pcap''"
  "\<not> FileExists example_ext ''/captures/missing.pcap''"
  by (simp_all add: example_ext_def example_files_def hex1_def hex2_def hex3_def hex4_def)

lemma example_files_simps:
  "FileExists example_ext (''pcaps/'' @ hex1 @ ''.pcap'')"
  "FileExists example_ext (''pcaps/'' @ hex1 @ ''.pcapng'')"
  "\<not> FileExists example_ext (''pcaps/'' @ hex2 @ ''.pcap'')"
  "FileExists example_ext (''pcaps/'' @ hex2 @ ''.pcapng'')"
  "\<not> FileExists example_ext (''pcaps/'' @ hex3 @ ''.pcap'')"
  "\<not> FileExists example_ext (''pcaps/'' @ hex3 @ ''.pcapng'')"
  by (simp_all add: example_ext_def example_files_def hex1_def hex2_def hex3_def)

lemma example_isZero:
  "TextSearch_isZero example_ext t
     \<longleftrightarrow> Terms t = None \<and> ExcludedTerms t = None \<and> ExactPhrase t = ''''"
  "RegexSearch_isZero example_ext r
     \<longleftrightarrow> Pattern r = '''' \<and> NotPattern r = '''' \<and> RegexSearch.more r = JNull"
  by (simp_all add: example_ext_def)

lemma example_context_simps:
  "IsConfigured example_context"
  "\<not> AuthRequired (Config example_context)"
  "Accounts example_context = [(''admin'', ''secret'')]"
  "RulesManager example_context = example_rules"
  "PcapImporter example_context = example_importer"
  "ConnectionsController example_context = example_connections"
  "GetConnectionMessages (ConnectionStreamsController example_context) k i format
     = (if i = 1 then Some (JArr []) else None)"
  "PerformSearch (SearchController example_context) k options
     = JObj [(''affected_connections'', JArr [])]"
  by (simp_all add: example_context_def)

lemma example_rules_simps:
  "AddRule example_rules k flag_rule = Inl ''rule name must be unique''"
  "AddRule example_rules k other_rule = Inr 2"
  "GetRule example_rules 1 = Some flag_rule"
  "GetRule example_rules 4 = None"
  "UpdateRule example_rules k 2 flag_rule = Inl ''rule name must be unique''"
  by (simp_all add: example_rules_def flag_rule_def other_rule_def)

lemma example_importer_simps:
  "ImportPcap example_importer fileName True = Inr 3"
  "ImportPcap example_importer fileName False = Inl ''invalid file format''"
  "GetSession example_importer 1 = Some (JObj [(''id'', JRowID 1)])"
  "GetSession example_importer 2 = Some (JObj [(''id'', JRowID 2)])"
  "GetSession example_importer 3 = Some (JObj [(''id'', JRowID 3)])"
  "GetSession example_importer 4 = None"
  "CancelSession example_importer = (\<lambda>i. fst (cancel_session example_sessions i))"
  by (simp_all add: example_importer_def)

lemma example_sessions_simps:
  "cancel_session example_sessions 1
     = (True, example_sessions(1 \<mapsto> \<lparr>completed_at = None, cancelled = True\<rparr>))"
  "cancel_session example_sessions 2 = (False, example_sessions)"
  "cancel_session example_sessions 3 = (False, example_sessions)"
  "cancel_session example_sessions 4 = (False, example_sessions)"
  by (simp_all add: cancel_session_def example_sessions_def running_def)

lemma example_connections_simps:
  "GetConnection example_connections k 1 = Some (JObj [(''id'', JRowID 1)])"
  "GetConnection example_connections k 4 = None"
  "SetHidden example_connections k i hidden \<longleftrightarrow> i = 1"
  "SetMarked example_connections k i marked \<longleftrightarrow> i = 1"
  "SetComment example_connections k i comment \<longleftrightarrow> i = 1"
  by (simp_all add: example_connections_def)

lemmas example_simps =
  request_simps example_ext_simps example_files_simps example_context_simps example_rules_simps
  example_importer_simps example_sessions_simps example_connections_simps

subsection \<open>Rules\<close>

text \<open>
  C3. A POST /api/rules request whose body binds to a rule: when
  \<^verbatim>\<open>RulesManager.AddRule\<close> returns an error the response is 422 Unprocessable Entity
  with the error message and no notification is sent; when it succeeds the response is
  200 with the new rule id and one notification \<open>rules.new\<close> carrying that id is sent.
\<close>

theorem add_rule_outcome:
  assumes "ShouldBindJSON c = Inr rule"
  shows "(\<forall>err. AddRule (RulesManager ctx) (as_context c) rule = Inl err \<longrightarrow>
            status (post_rules ctx c) = 422
          \<and> body (post_rules ctx c)
              = JSON (JObj [(''result'', JStr ''error''), (''error'', JStr err)])
          \<and> notifications (post_rules ctx c) = [])
       \<and> (\<forall>new_id. AddRule (RulesManager ctx) (as_context c) rule = Inr new_id \<longrightarrow>
            status (post_rules ctx c) = 200
          \<and> body (post_rules ctx c) = JSON (JObj [(''id'', JRowID new_id)])
          \<and> notifications (post_rules ctx c)
              = [Notify ''rules.new'' (JObj [(''id'', JRowID new_id)])])"
  using assms
  by (simp add: post_rules_def notifications_def response_defs status_defs Let_def)

theorem add_rule_outcome_witness:
  "status (post_rules example_context (request [] [] (Inr flag_rule) unbound)) = 422
   \<and> body (post_rules example_context (request [] [] (Inr flag_rule) unbound))
       = JSON (JObj [(''result'', JStr ''error''), (''error'', JStr ''rule name must be unique'')])
   \<and> notifications (post_rules example_context (request [] [] (Inr flag_rule) unbound)) = []
   \<and> status (post_rules example_context (request [] [] (Inr other_rule) unbound)) = 200
   \<and> body (post_rules example_context (request [] [] (Inr other_rule) unbound))
       = JSON (JObj [(''id'', JRowID 2)])
   \<and> notifications (post_rules example_context (request [] [] (Inr other_rule) unbound))
       = [Notify ''rules.new'' (JObj [(''id'', JRowID 2)])]"
  using add_rule_outcome [of "request [] [] (Inr flag_rule) unbound" flag_rule example_context]
        add_rule_outcome [of "request [] [] (Inr other_rule) unbound" other_rule example_context]
  by (simp add: example_simps)

text \<open>
  The update route, for a well-formed id and a body that binds: the answer follows the
  result of \<^verbatim>\<open>RulesManager.UpdateRule\<close>. An error is answered with \<^verbatim>\<open>badRequest\<close>,
  an absent rule with 404 and the id, and only a present rule is returned, with one
  notification \<open>rules.edit\<close>.
\<close>

lemma update_rule_outcome:
  assumes "RowIDFromHex ext (Param c ''id'') = Inr i" and "ShouldBindJSON c = Inr rule"
  shows "put_rules_id ext ctx c =
           (case UpdateRule (RulesManager ctx) (as_context c) i rule of
              Inl err \<Rightarrow>
                \<lparr>status = 400,
                 body = JSON (JObj [(''result'', JStr ''error''), (''error'', JStr err)]),
                 effects = [Call_UpdateRule i rule]\<rparr>
            | Inr isPresent \<Rightarrow>
                if isPresent
                then \<lparr>status = 200, body = JSON rule,
                      effects = [Call_UpdateRule i rule, Notify ''rules.edit'' rule]\<rparr>
                else \<lparr>status = 404,
                      body = JSON (JObj [(''error'', JStr ''not found''), (''id'', JRowID i)]),
                      effects = [Call_UpdateRule i rule]\<rparr>)"
  using assms
  by (simp add: put_rules_id_def response_defs status_defs split: sum.splits)

text \<open>
  C4. The update route applies the same gate as the add route, so a failure of
  \<^verbatim>\<open>UpdateRule\<close> should be answered with the status of a failure of \<^verbatim>\<open>AddRule\<close>.
  The code answers differently: on the same rule, refused by both methods with the
  same error, the add route answers 422 and the update route 400.
\<close>

theorem update_rule_failure_status_differs_from_add_rule:
  "AddRule (RulesManager example_context)
      (as_context (request hex2 [] (Inr flag_rule) unbound)) flag_rule
     = Inl ''rule name must be unique''
   \<and> UpdateRule (RulesManager example_context)
        (as_context (request hex2 [] (Inr flag_rule) unbound)) 2 flag_rule
       = Inl ''rule name must be unique''
   \<and> status (post_rules example_context (request hex2 [] (Inr flag_rule) unbound)) = 422
   \<and> status (put_rules_id example_ext example_context (request hex2 [] (Inr flag_rule) unbound))
       = 400"
  by (simp add: post_rules_def put_rules_id_def response_defs status_defs example_simps)

subsection \<open>Lookups by id\<close>

text \<open>
  C5 (as amended). A lookup by a well-formed id that names no rule, session or
  connection is answered 404 Not Found with a body that carries the id, on
  GET /api/rules/:id, GET /api/pcap/sessions/:id and GET /api/connections/:id, and on
  GET /api/streams/:id when the query string binds to the message format. On the
  streams route a query that does not bind is answered 400 before any lookup, whatever
  the id names. A malformed hex id is answered 400 on the four routes.
\<close>

theorem lookup_not_found:
  fixes c :: "jvalue Context"
  shows
  "(\<forall>i. RowIDFromHex ext (Param c ''id'') = Inr i \<longrightarrow>
      (GetRule (RulesManager ctx) i = None \<longrightarrow>
         status (get_rules_id ext ctx c) = 404
       \<and> body (get_rules_id ext ctx c)
           = JSON (JObj [(''error'', JStr ''not found''), (''id'', JRowID i)]))
    \<and> (GetSession (PcapImporter ctx) i = None \<longrightarrow>
         status (get_pcap_sessions_id ext ctx c) = 404
       \<and> body (get_pcap_sessions_id ext ctx c)
           = JSON (JObj [(''error'', JStr ''not found''), (''session'', JRowID i)]))
    \<and> (GetConnection (ConnectionsController ctx) (as_context c) i = None \<longrightarrow>
         status (get_connections_id ext ctx c) = 404
       \<and> body (get_connections_id ext ctx c)
           = JSON (JObj [(''error'', JStr ''not found''), (''connection'', JRowID i)]))
    \<and> (\<forall>format. ShouldBindQuery c = Inr format
           \<and> GetConnectionMessages (ConnectionStreamsController ctx) (as_context c) i format
               = None \<longrightarrow>
         status (get_streams_id ext ctx c) = 404
       \<and> body (get_streams_id ext ctx c)
           = JSON (JObj [(''error'', JStr ''not found''), (''connection'', JRowID i)]))
    \<and> (\<forall>err. ShouldBindQuery c = Inl err \<longrightarrow>
         status (get_streams_id ext ctx c) = 400 \<and> effects (get_streams_id ext ctx c) = []))
   \<and> (\<forall>err. RowIDFromHex ext (Param c ''id'') = Inl err \<longrightarrow>
         status (get_rules_id ext ctx c) = 400
       \<and> status (get_pcap_sessions_id ext ctx c) = 400
       \<and> status (get_connections_id ext ctx c) = 400
       \<and> status (get_streams_id ext ctx c) = 400)"
  by (simp add: get_rules_id_def get_pcap_sessions_id_def get_connections_id_def
        get_streams_id_def response_defs status_defs)

theorem lookup_not_found_witness:
  "status (get_rules_id example_ext example_context (request hex4 [] unbound (Inr JNull))) = 404
   \<and> body (get_rules_id example_ext example_context (request hex4 [] unbound (Inr JNull)))
       = JSON (JObj [(''error'', JStr ''not found''), (''id'', JRowID 4)])
   \<and> status (get_pcap_sessions_id example_ext example_context
                (request hex4 [] unbound (Inr JNull))) = 404
   \<and> status (get_connections_id example_ext example_context
                (request hex4 [] unbound (Inr JNull))) = 404
   \<and> status (get_streams_id example_ext example_context
                (request hex4 [] unbound (Inr JNull))) = 404
   \<and> body (get_streams_id example_ext example_context (request hex4 [] unbound (Inr JNull)))
       = JSON (JObj [(''error'', JStr ''not found''), (''connection'', JRowID 4)])
   \<and> status (get_streams_id example_ext example_context
                (request hex4 [] unbound (Inl ''strconv.ParseBool: invalid syntax''))) = 400
   \<and> status (get_rules_id example_ext example_context
                (request ''xyz'' [] unbound (Inr JNull))) = 400"
  using lookup_not_found [of example_ext "request hex4 [] unbound (Inr JNull)" example_context]
        lookup_not_found [of example_ext
          "request hex4 [] unbound (Inl ''strconv.ParseBool: invalid syntax'')" example_context]
        lookup_not_found [of example_ext "request ''xyz'' [] unbound (Inr JNull)" example_context]
  by (simp add: example_simps)

text \<open>
  The claim as first stated fails on the streams route: id 4 is well formed and names
  no connection, the query does not bind, and the answer is not 404.
\<close>

theorem streams_lookup_bad_query_counterexample:
  "RowIDFromHex example_ext
      (Param (request hex4 [] unbound (Inl ''strconv.ParseBool: invalid syntax'')
                :: jvalue Context) ''id'') = Inr 4
   \<and> GetConnection (ConnectionsController example_context)
        (as_context (request hex4 [] unbound (Inl ''strconv.ParseBool: invalid syntax'')
                       :: jvalue Context)) 4 = None
   \<and> GetConnectionMessages (ConnectionStreamsController example_context)
        (as_context (request hex4 [] unbound (Inl ''strconv.ParseBool: invalid syntax'')
                       :: jvalue Context)) 4 JNull = None
   \<and> status (get_streams_id example_ext example_context
                (request hex4 [] unbound (Inl ''strconv.ParseBool: invalid syntax''))) \<noteq> 404"
  by (simp add: get_streams_id_def response_defs status_defs example_simps)

subsection \<open>Download of a session's PCAP\<close>

text \<open>
  C6. For a well-formed session id: when the session exists, the download route serves
  the file named by the id's hex form with suffix \<open>.pcap\<close> under the PCAP base path if
  that file exists, otherwise the one with suffix \<open>.pcapng\<close> if it exists; it answers
  404 Not Found when neither file exists or the session is unknown.
\<close>

theorem session_pcap_download:
  assumes "RowIDFromHex ext (Param c ''id'') = Inr sessionID"
  shows
  "(let pcap = Hex ext sessionID @ ''.pcap'';
        pcapng = Hex ext sessionID @ ''.pcapng'';
        pcapPath = filepath_Join ext (PcapsBasePath ext) pcap;
        pcapngPath = filepath_Join ext (PcapsBasePath ext) pcapng;
        known = (GetSession (PcapImporter ctx) sessionID \<noteq> None);
        out = get_pcap_sessions_id_download ext ctx c
    in (known \<and> FileExists ext pcapPath \<longrightarrow>
          status out = 200 \<and> body out = FileAttachment pcapPath pcap)
     \<and> (known \<and> \<not> FileExists ext pcapPath \<and> FileExists ext pcapngPath \<longrightarrow>
          status out = 200 \<and> body out = FileAttachment pcapngPath pcapng)
     \<and> (\<not> known \<or> (\<not> FileExists ext pcapPath \<and> \<not> FileExists ext pcapngPath) \<longrightarrow>
          status out = 404
        \<and> body out = JSON (JObj [(''error'', JStr ''not found''),
                                   (''session'', JRowID sessionID)])))"
proof (cases "GetSession (PcapImporter ctx) sessionID")
  case None
  with assms show ?thesis
    by (simp add: get_pcap_sessions_id_download_def response_defs status_defs Let_def)
next
  case (Some session)
  with assms show ?thesis
    by (simp add: get_pcap_sessions_id_download_def response_defs status_defs Let_def)
qed

lemmas example_paths = example_files_simps [simplified]

theorem session_pcap_download_witness:
  "body (get_pcap_sessions_id_download example_ext example_context
           (request hex1 [] unbound unbound :: unit Context))
     = FileAttachment (''pcaps/'' @ hex1 @ ''.pcap'') (hex1 @ ''.pcap'')
   \<and> body (get_pcap_sessions_id_download example_ext example_context
           (request hex2 [] unbound unbound :: unit Context))
       = FileAttachment (''pcaps/'' @ hex2 @ ''.pcapng'') (hex2 @ ''.pcapng'')
   \<and> status (get_pcap_sessions_id_download example_ext example_context
                (request hex3 [] unbound unbound :: unit Context)) = 404
   \<and> status (get_pcap_sessions_id_download example_ext example_context
                (request hex4 [] unbound unbound :: unit Context)) = 404"
  using session_pcap_download [of example_ext "request hex1 [] unbound unbound :: unit Context"
          1 example_context]
        session_pcap_download [of example_ext "request hex2 [] unbound unbound :: unit Context"
          2 example_context]
        session_pcap_download [of example_ext "request hex3 [] unbound unbound :: unit Context"
          3 example_context]
        session_pcap_download [of example_ext "request hex4 [] unbound unbound :: unit Context"
          4 example_context]
  by (simp add: example_simps example_paths Let_def)

subsection \<open>Actions on a connection\<close>

lemma action_switch_hide:
  "action_switch ctx c i ''hide''
     = Inr (SetHidden (ConnectionsController ctx) (as_context c) i True, [Call_SetHidden i True])"
  by (simp add: action_switch_def)

lemma action_switch_show:
  "action_switch ctx c i ''show''
     = Inr (SetHidden (ConnectionsController ctx) (as_context c) i False, [Call_SetHidden i False])"
  by (simp add: action_switch_def)

lemma action_switch_mark:
  "action_switch ctx c i ''mark''
     = Inr (SetMarked (ConnectionsController ctx) (as_context c) i True, [Call_SetMarked i True])"
  by (simp add: action_switch_def)

lemma action_switch_unmark:
  "action_switch ctx c i ''unmark''
     = Inr (SetMarked (ConnectionsController ctx) (as_context c) i False, [Call_SetMarked i False])"
  by (simp add: action_switch_def)

lemma action_switch_comment:
  "action_switch ctx c i ''comment''
     = (case ShouldBindJSON c of
          Inl err \<Rightarrow> Inl (badRequest err)
        | Inr comment \<Rightarrow>
            Inr (SetComment (ConnectionsController ctx) (as_context c) i comment, [Call_SetComment i comment]))"
  by (simp add: action_switch_def)

lemma action_switch_default:
  assumes "action \<noteq> ''hide''" "action \<noteq> ''show''" "action \<noteq> ''mark''"
    "action \<noteq> ''unmark''" "action \<noteq> ''comment''"
  shows "action_switch ctx c i action = Inl (badRequest ''invalid action'')"
  using assms by (simp add: action_switch_def)

lemma action_route_outcome:
  assumes "RowIDFromHex ext (Param c ''id'') = Inr i"
  shows
  "(let action = Param c ''action'';
        cc = ConnectionsController ctx;
        out = post_connections_id_action ext ctx c;
        answer = (\<lambda>result. status out = (if result then 200 else 404))
    in (action = ''hide'' \<longrightarrow> calls out = [Call_SetHidden i True] \<and> answer (SetHidden cc (as_context c) i True))
     \<and> (action = ''show'' \<longrightarrow>
          calls out = [Call_SetHidden i False] \<and> answer (SetHidden cc (as_context c) i False))
     \<and> (action = ''mark'' \<longrightarrow> calls out = [Call_SetMarked i True] \<and> answer (SetMarked cc (as_context c) i True))
     \<and> (action = ''unmark'' \<longrightarrow>
          calls out = [Call_SetMarked i False] \<and> answer (SetMarked cc (as_context c) i False))
     \<and> (\<forall>comment. action = ''comment'' \<and> ShouldBindJSON c = Inr comment \<longrightarrow>
          calls out = [Call_SetComment i comment] \<and> answer (SetComment cc (as_context c) i comment))
     \<and> (action \<notin> {''hide'', ''show'', ''mark'', ''unmark'', ''comment''} \<longrightarrow>
          status out = 400 \<and> effects out = [])
     \<and> set (calls out)
          \<subseteq> {Call_SetHidden i True, Call_SetHidden i False,
              Call_SetMarked i True, Call_SetMarked i False} \<union> range (Call_SetComment i)
     \<and> length (calls out) \<le> 1)"
proof -
  let ?a = "Param c ''action''"
  let ?cc = "ConnectionsController ctx"
  let ?out = "post_connections_id_action ext ctx c"
  let ?allowed = "{Call_SetHidden i True, Call_SetHidden i False,
                   Call_SetMarked i True, Call_SetMarked i False} \<union> range (Call_SetComment i)"
  note outcome_simps = calls_def response_defs status_defs Let_def
  have route: "?out = (case action_switch ctx c i ?a of
                         Inl returned \<Rightarrow> returned
                       | Inr (result, cs) \<Rightarrow>
                           after cs
                             (if result
                              then (let response =
                                          JObj [(''connection_id'', JStr (Param c ''id'')),
                                                (''action'', JStr ?a)]
                                    in followed_by (success response)
                                         [Notify ''connections.action'' response])
                              else notFound (JObj [(''error'', JStr ''not found''),
                                                   (''connection'', JRowID i)])))"
    using assms by (simp add: post_connections_id_action_def)
  have hide: "calls ?out = [Call_SetHidden i True]
              \<and> status ?out = (if SetHidden ?cc (as_context c) i True then 200 else 404)"
    if "?a = ''hide''"
    using that by (simp add: route action_switch_hide outcome_simps)
  have "show": "calls ?out = [Call_SetHidden i False]
              \<and> status ?out = (if SetHidden ?cc (as_context c) i False then 200 else 404)"
    if "?a = ''show''"
    using that by (simp add: route action_switch_show outcome_simps)
  have mark: "calls ?out = [Call_SetMarked i True]
              \<and> status ?out = (if SetMarked ?cc (as_context c) i True then 200 else 404)"
    if "?a = ''mark''"
    using that by (simp add: route action_switch_mark outcome_simps)
  have unmark: "calls ?out = [Call_SetMarked i False]
              \<and> status ?out = (if SetMarked ?cc (as_context c) i False then 200 else 404)"
    if "?a = ''unmark''"
    using that by (simp add: route action_switch_unmark outcome_simps)
  have comment: "calls ?out = [Call_SetComment i comment]
              \<and> status ?out = (if SetComment ?cc (as_context c) i comment then 200 else 404)"
    if "?a = ''comment''" and "ShouldBindJSON c = Inr comment" for comment
    using that by (simp add: route action_switch_comment outcome_simps)
  have unbound_comment: "calls ?out = []"
    if "?a = ''comment''" and "ShouldBindJSON c = Inl err" for err
    using that by (simp add: route action_switch_comment outcome_simps)
  have other: "status ?out = 400 \<and> effects ?out = []"
    if "?a \<notin> {''hide'', ''show'', ''mark'', ''unmark'', ''comment''}"
  proof -
    from that have "action_switch ctx c i ?a = Inl (badRequest ''invalid action'')"
      by (intro action_switch_default) simp_all
    then show ?thesis by (simp add: route outcome_simps)
  qed
  have only: "set (calls ?out) \<subseteq> ?allowed \<and> length (calls ?out) \<le> 1"
  proof (cases "?a \<in> {''hide'', ''show'', ''mark'', ''unmark'', ''comment''}")
    case False
    from other [OF False] show ?thesis by (simp add: calls_def)
  next
    case True
    then consider "?a = ''hide''" | "?a = ''show''" | "?a = ''mark''" | "?a = ''unmark''"
      | "?a = ''comment''" by blast
    then show ?thesis
    proof cases
      case 1 with hide show ?thesis by simp
    next
      case 2 with "show" show ?thesis by simp
    next
      case 3 with mark show ?thesis by simp
    next
      case 4 with unmark show ?thesis by simp
    next
      case 5
      show ?thesis
      proof (cases "ShouldBindJSON c")
        case (Inl err)
        with 5 unbound_comment show ?thesis by simp
      next
        case (Inr comment)
        with 5 comment show ?thesis by simp
      qed
    qed
  qed
  from hide "show" mark unmark comment other only show ?thesis
    unfolding Let_def by blast
qed

text \<open>
  No other route changes a stored connection: not the pages, the setup or the
  websocket, and none of the other handlers of the /api group.
\<close>

lemma router_routes_never_mutate_connections:
  "\<not> list_ex is_connection_mutation (effects (get_page c))"
  "\<not> list_ex is_connection_mutation (effects (post_setup ctx c0))"
  "\<not> list_ex is_connection_mutation (effects (get_websocket nc c))"
  by (simp_all add: get_page_def c_File_def post_setup_def get_websocket_def serverError_def
        nothing_written_def response_defs Let_def
      split: sum.splits option.splits)

lemma rules_routes_never_mutate_connections:
  "\<not> list_ex is_connection_mutation (effects (get_status ctx c))"
  "\<not> list_ex is_connection_mutation (effects (get_rules ctx c))"
  "\<not> list_ex is_connection_mutation (effects (post_rules ctx c1))"
  "\<not> list_ex is_connection_mutation (effects (get_rules_id ext ctx c))"
  "\<not> list_ex is_connection_mutation (effects (put_rules_id ext ctx c1))"
  by (simp_all add: get_status_def get_rules_def post_rules_def get_rules_id_def
        put_rules_id_def response_defs Let_def
      split: sum.splits option.splits)

lemma pcap_routes_never_mutate_connections:
  "\<not> list_ex is_connection_mutation (effects (post_pcap_upload ext ctx c))"
  "\<not> list_ex is_connection_mutation (effects (post_pcap_file ext ctx c2))"
  "\<not> list_ex is_connection_mutation (effects (get_pcap_sessions ctx c))"
  "\<not> list_ex is_connection_mutation (effects (get_pcap_sessions_id ext ctx c))"
  "\<not> list_ex is_connection_mutation (effects (get_pcap_sessions_id_download ext ctx c))"
  "\<not> list_ex is_connection_mutation (effects (delete_pcap_sessions_id ext ctx c))"
  "\<not> list_ex is_connection_mutation (effects (get_pcap_connections_id_download ext ctx c))"
  by (simp_all add: post_pcap_upload_def post_pcap_file_def get_pcap_sessions_def
        get_pcap_sessions_id_def get_pcap_sessions_id_download_def delete_pcap_sessions_id_def
        get_pcap_connections_id_download_def serverError_def c_String_def
        response_defs Let_def
      split: sum.splits option.splits)

lemma capture_routes_never_mutate_connections:
  "\<not> list_ex is_connection_mutation (effects (put_capture_local ctx c3))"
  "\<not> list_ex is_connection_mutation (effects (delete_capture ctx c))"
  "\<not> list_ex is_connection_mutation (effects (post_capture_local_interfaces ctx c))"
  "\<not> list_ex is_connection_mutation (effects (put_capture_interval ext ctx c5))"
  "\<not> list_ex is_connection_mutation (effects (put_capture_remote ctx c6))"
  "\<not> list_ex is_connection_mutation (effects (post_capture_remote_interfaces ctx c3))"
  by (simp_all add: put_capture_local_def delete_capture_def post_capture_local_interfaces_def
        put_capture_interval_def put_capture_remote_def post_capture_remote_interfaces_def
        serverError_def c_String_def response_defs Let_def
      split: sum.splits option.splits)

lemma read_routes_never_mutate_connections:
  "\<not> list_ex is_connection_mutation (effects (get_connections ctx c3))"
  "\<not> list_ex is_connection_mutation (effects (get_connections_id ext ctx c))"
  "\<not> list_ex is_connection_mutation (effects (get_searches ctx c))"
  "\<not> list_ex is_connection_mutation (effects (post_searches_perform ext ctx c4))"
  "\<not> list_ex is_connection_mutation (effects (get_streams_id ext ctx c3))"
  "\<not> list_ex is_connection_mutation (effects (get_streams_id_download ext ctx c3))"
  by (simp_all add: get_connections_def get_connections_id_def get_searches_def
        post_searches_perform_def get_streams_id_def get_streams_id_download_def
        serverError_def c_String_def response_defs Let_def
      split: sum.splits option.splits)

lemma service_routes_never_mutate_connections:
  "\<not> list_ex is_connection_mutation (effects (get_services ctx c))"
  "\<not> list_ex is_connection_mutation (effects (put_services ctx c3))"
  "\<not> list_ex is_connection_mutation (effects (delete_services ctx c3))"
  "\<not> list_ex is_connection_mutation (effects (get_statistics ctx c3))"
  "\<not> list_ex is_connection_mutation (effects (get_statistics_totals ctx c3))"
  "\<not> list_ex is_connection_mutation (effects (get_resources_system rc c))"
  "\<not> list_ex is_connection_mutation (effects (get_resources_process rc c))"
  by (simp_all add: get_services_def put_services_def delete_services_def get_statistics_def
        get_statistics_totals_def get_resources_system_def get_resources_process_def
        serverError_def c_String_def response_defs Let_def
      split: sum.splits option.splits)

lemmas other_routes_never_mutate_connections =
  router_routes_never_mutate_connections rules_routes_never_mutate_connections
  pcap_routes_never_mutate_connections capture_routes_never_mutate_connections
  read_routes_never_mutate_connections service_routes_never_mutate_connections

text \<open>
  Behind the middlewares of the group a route has the effects of its handler, or none
  when a middleware answers in its place.
\<close>

lemma api_effects:
  "effects (api (BasicAuth refusal) ctx handler c) = effects (handler c)
   \<or> effects (api (BasicAuth refusal) ctx handler c) = []"
  by (simp add: api_def SetupRequiredMiddleware_def AuthRequiredMiddleware_def BasicAuth_def
        c_JSON_def c_AbortWithStatus_def
      split: option.splits)

lemma api_never_mutates:
  assumes "\<not> list_ex is_connection_mutation (effects (handler c))"
  shows "\<not> list_ex is_connection_mutation
             (effects (api (BasicAuth refusal) ctx handler c))"
  using assms api_effects [of refusal ctx handler c] by auto

lemma other_api_routes_never_mutate_connections:
  assumes "\<And>c'. r \<noteq> POST_api_connections_id_action c'"
  shows "\<not> list_ex is_connection_mutation (effects (api_route refusal ext ctx rc r))"
  using assms
  by (cases r) (auto simp add: api_never_mutates other_routes_never_mutate_connections)

lemma mutation_is_call:
  assumes "is_connection_mutation e" and "e \<in> set (effects out)"
  shows "e \<in> set (calls out)"
  using assms by (cases e) (simp_all add: calls_def)

lemma action_route_mutations:
  assumes "e \<in> set (effects (api (BasicAuth refusal) ctx
                            (post_connections_id_action ext ctx) c))"
    and "is_connection_mutation e"
  shows "\<exists>i. RowIDFromHex ext (Param c ''id'') = Inr i
             \<and> e \<in> {Call_SetHidden i True, Call_SetHidden i False,
                    Call_SetMarked i True, Call_SetMarked i False} \<union> range (Call_SetComment i)"
proof -
  let ?out = "post_connections_id_action ext ctx c"
  from assms(1) api_effects [of refusal ctx "post_connections_id_action ext ctx" c]
  have member: "e \<in> set (effects ?out)" by auto
  show ?thesis
  proof (cases "RowIDFromHex ext (Param c ''id'')")
    case (Inl err)
    then have "effects ?out = []"
      by (simp add: post_connections_id_action_def response_defs)
    with member show ?thesis by simp
  next
    case (Inr i)
    from action_route_outcome [OF Inr, of ctx]
    have "set (calls ?out)
            \<subseteq> {Call_SetHidden i True, Call_SetHidden i False,
                Call_SetMarked i True, Call_SetMarked i False} \<union> range (Call_SetComment i)"
      unfolding Let_def by blast
    with mutation_is_call [OF assms(2) member] Inr show ?thesis by blast
  qed
qed

text \<open>
  C7. POST /api/connections/:id/:action, for a well-formed id, supports exactly the
  actions hide, show, mark, unmark and comment: hide and show call \<^verbatim>\<open>SetHidden\<close> with
  true and false, mark and unmark call \<^verbatim>\<open>SetMarked\<close> with true and false, comment
  calls \<^verbatim>\<open>SetComment\<close> with the bound comment. A false result of the controller is
  answered 404 (a true one 200). Any other action is answered 400 and nothing is
  called. Whatever the request, the route makes at most one call, and that call is one
  of these three mutations on the connection of the request. No other route of the
  router changes a stored connection: whenever a request to any route, of the /api
  group or not, makes a call of \<^verbatim>\<open>SetHidden\<close>, \<^verbatim>\<open>SetMarked\<close> or \<^verbatim>\<open>SetComment\<close>,
  it is a request to this route with a well-formed id, and the call is one of the above
  on the connection of that id.
\<close>

theorem connection_actions:
  "(RowIDFromHex ext (Param c ''id'') = Inr i \<longrightarrow>
    (let action = Param c ''action'';
         cc = ConnectionsController ctx;
         out = post_connections_id_action ext ctx c;
         answer = (\<lambda>result. status out = (if result then 200 else 404))
     in (action = ''hide'' \<longrightarrow>
           calls out = [Call_SetHidden i True] \<and> answer (SetHidden cc (as_context c) i True))
      \<and> (action = ''show'' \<longrightarrow>
           calls out = [Call_SetHidden i False] \<and> answer (SetHidden cc (as_context c) i False))
      \<and> (action = ''mark'' \<longrightarrow>
           calls out = [Call_SetMarked i True] \<and> answer (SetMarked cc (as_context c) i True))
      \<and> (action = ''unmark'' \<longrightarrow>
           calls out = [Call_SetMarked i False] \<and> answer (SetMarked cc (as_context c) i False))
      \<and> (\<forall>comment. action = ''comment'' \<and> ShouldBindJSON c = Inr comment \<longrightarrow>
           calls out = [Call_SetComment i comment]
           \<and> answer (SetComment cc (as_context c) i comment))
      \<and> (action \<notin> {''hide'', ''show'', ''mark'', ''unmark'', ''comment''} \<longrightarrow>
           status out = 400 \<and> effects out = [])
      \<and> set (calls out)
           \<subseteq> {Call_SetHidden i True, Call_SetHidden i False,
               Call_SetMarked i True, Call_SetMarked i False} \<union> range (Call_SetComment i)
      \<and> length (calls out) \<le> 1))
   \<and> (\<forall>e \<in> set (effects (router refusal ext ctx nc rc r)).
         is_connection_mutation e \<longrightarrow>
         (\<exists>c' i'. r = Api (POST_api_connections_id_action c')
                 \<and> RowIDFromHex ext (Param c' ''id'') = Inr i'
                 \<and> e \<in> {Call_SetHidden i' True, Call_SetHidden i' False,
                        Call_SetMarked i' True, Call_SetMarked i' False}
                       \<union> range (Call_SetComment i')))"
proof (intro conjI impI ballI)
  assume "RowIDFromHex ext (Param c ''id'') = Inr i"
  then show "let action = Param c ''action'';
         cc = ConnectionsController ctx;
         out = post_connections_id_action ext ctx c;
         answer = (\<lambda>result. status out = (if result then 200 else 404))
     in (action = ''hide'' \<longrightarrow>
           calls out = [Call_SetHidden i True] \<and> answer (SetHidden cc (as_context c) i True))
      \<and> (action = ''show'' \<longrightarrow>
           calls out = [Call_SetHidden i False] \<and> answer (SetHidden cc (as_context c) i False))
      \<and> (action = ''mark'' \<longrightarrow>
           calls out = [Call_SetMarked i True] \<and> answer (SetMarked cc (as_context c) i True))
      \<and> (action = ''unmark'' \<longrightarrow>
           calls out = [Call_SetMarked i False] \<and> answer (SetMarked cc (as_context c) i False))
      \<and> (\<forall>comment. action = ''comment'' \<and> ShouldBindJSON c = Inr comment \<longrightarrow>
           calls out = [Call_SetComment i comment]
           \<and> answer (SetComment cc (as_context c) i comment))
      \<and> (action \<notin> {''hide'', ''show'', ''mark'', ''unmark'', ''comment''} \<longrightarrow>
           status out = 400 \<and> effects out = [])
      \<and> set (calls out)
           \<subseteq> {Call_SetHidden i True, Call_SetHidden i False,
               Call_SetMarked i True, Call_SetMarked i False} \<union> range (Call_SetComment i)
      \<and> length (calls out) \<le> 1"
    by (rule action_route_outcome)
next
  fix e
  assume member: "e \<in> set (effects (router refusal ext ctx nc rc r))"
    and mutation: "is_connection_mutation e"
  then have mutates:
    "list_ex is_connection_mutation (effects (router refusal ext ctx nc rc r))"
    by (auto simp add: list_ex_iff)
  show "\<exists>c' i'. r = Api (POST_api_connections_id_action c')
                 \<and> RowIDFromHex ext (Param c' ''id'') = Inr i'
                 \<and> e \<in> {Call_SetHidden i' True, Call_SetHidden i' False,
                        Call_SetMarked i' True, Call_SetMarked i' False}
                       \<union> range (Call_SetComment i')"
  proof (cases r)
    case (GET_page c0)
    with mutates router_routes_never_mutate_connections(1) [of c0] show ?thesis by simp
  next
    case (POST_setup c0)
    with mutates router_routes_never_mutate_connections(2) [of ctx c0] show ?thesis by simp
  next
    case (GET_websocket c0)
    with mutates router_routes_never_mutate_connections(3) [of nc c0] show ?thesis by simp
  next
    case (Api r')
    with mutates
    have "list_ex is_connection_mutation (effects (api_route refusal ext ctx rc r'))"
      by simp
    with other_api_routes_never_mutate_connections [of r' refusal ext ctx rc]
    obtain c' where action: "r' = POST_api_connections_id_action c'" by blast
    with member Api
    have "e \<in> set (effects (api (BasicAuth refusal) ctx
                            (post_connections_id_action ext ctx) c'))"
      by simp
    from action_route_mutations [OF this mutation] Api action show ?thesis by blast
  qed
qed

lemma example_hide:
  "status (post_connections_id_action example_ext example_context
             (request hex1 ''hide'' unbound unbound)) = 200"
  "effects (post_connections_id_action example_ext example_context
              (request hex1 ''hide'' unbound unbound))
     = [Call_SetHidden 1 True,
        Notify ''connections.action''
          (JObj [(''connection_id'', JStr hex1), (''action'', JStr ''hide'')])]"
  by (simp_all add: post_connections_id_action_def action_switch_hide example_simps
        response_defs status_defs Let_def)

lemma example_api:
  "api (BasicAuth refusal) example_context handler c = handler c"
  by (simp add: api_def SetupRequiredMiddleware_def AuthRequiredMiddleware_def
        example_context_simps)

theorem connection_actions_witness:
  "calls (post_connections_id_action example_ext example_context
            (request hex1 ''hide'' unbound unbound)) = [Call_SetHidden 1 True]
   \<and> status (post_connections_id_action example_ext example_context
                (request hex1 ''hide'' unbound unbound)) = 200
   \<and> calls (post_connections_id_action example_ext example_context
               (request hex1 ''show'' unbound unbound)) = [Call_SetHidden 1 False]
   \<and> calls (post_connections_id_action example_ext example_context
               (request hex4 ''mark'' unbound unbound)) = [Call_SetMarked 4 True]
   \<and> status (post_connections_id_action example_ext example_context
                (request hex4 ''mark'' unbound unbound)) = 404
   \<and> calls (post_connections_id_action example_ext example_context
               (request hex1 ''unmark'' unbound unbound)) = [Call_SetMarked 1 False]
   \<and> calls (post_connections_id_action example_ext example_context
               (request hex1 ''comment'' (Inr ''sqli'') unbound)) = [Call_SetComment 1 ''sqli'']
   \<and> status (post_connections_id_action example_ext example_context
                (request hex1 ''delete'' unbound unbound)) = 400
   \<and> effects (post_connections_id_action example_ext example_context
                 (request hex1 ''delete'' unbound unbound)) = []
   \<and> list_ex is_connection_mutation
        (effects (router example_refusal example_ext example_context
                    example_notifications example_resources
                    (Api (POST_api_connections_id_action
                            (request hex1 ''hide'' unbound unbound)))))
   \<and> \<not> list_ex is_connection_mutation
          (effects (router example_refusal example_ext example_context
                      example_notifications example_resources
                      (Api (GET_api_connections_id (request hex1 [] unbound unbound)))))
   \<and> \<not> list_ex is_connection_mutation
          (effects (router example_refusal example_ext example_context
                      example_notifications example_resources
                      (POST_setup (request [] [] (Inr example_settings) unbound))))"
  using connection_actions [of example_ext "request hex1 ''hide'' unbound unbound" 1
          example_context example_refusal example_notifications example_resources
          "Api (POST_api_connections_id_action (request hex1 ''hide'' unbound unbound))"]
        connection_actions [of example_ext "request hex1 ''show'' unbound unbound" 1
          example_context example_refusal example_notifications example_resources
          "Api (GET_api_connections_id (request hex1 [] unbound unbound))"]
        connection_actions [of example_ext "request hex4 ''mark'' unbound unbound" 4
          example_context example_refusal example_notifications example_resources
          "POST_setup (request [] [] (Inr example_settings) unbound)"]
        connection_actions [of example_ext "request hex1 ''unmark'' unbound unbound" 1
          example_context example_refusal example_notifications example_resources
          "POST_setup (request [] [] (Inr example_settings) unbound)"]
        connection_actions [of example_ext "request hex1 ''comment'' (Inr ''sqli'') unbound" 1
          example_context example_refusal example_notifications example_resources
          "POST_setup (request [] [] (Inr example_settings) unbound)"]
        connection_actions [of example_ext "request hex1 ''delete'' unbound unbound" 1
          example_context example_refusal example_notifications example_resources
          "POST_setup (request [] [] (Inr example_settings) unbound)"]
  by (simp add: example_simps example_api example_hide list_ex_iff Let_def)

subsection \<open>Searches\<close>

text \<open>
  The checks of the route leave an error exactly when the exclusivity rules fail, for
  every reading of the two \<^verbatim>\<open>isZero\<close> methods.
\<close>

lemma badContentError_None_iff:
  "badContentError ext options = None \<longleftrightarrow> exclusivity_rules ext options"
  by (auto simp add: badContentError_def exclusivity_rules_def Let_def)

text \<open>
  C1. A payload that binds to the search options is rejected as invalid (400 Bad
  Request, \<^verbatim>\<open>PerformSearch\<close> not called) if and only if it fails the exclusivity
  rules; a payload that passes them is answered 200 with the result of
  \<^verbatim>\<open>PerformSearch\<close>, called once on it. In particular a text search with both terms
  and an exact phrase present is rejected.
\<close>

theorem search_rejected_iff_rules_fail:
  assumes "ShouldBindJSON c = Inr options"
  shows
  "(let out = post_searches_perform ext ctx c;
        rejected = (status out = 400 \<and> calls out = [])
    in (rejected \<longleftrightarrow> \<not> exclusivity_rules ext options)
     \<and> (\<not> rejected \<longrightarrow>
          status out = 200
        \<and> body out = JSON (PerformSearch (SearchController ctx) (as_context c) options)
        \<and> calls out = [Call_PerformSearch options])
     \<and> (\<not> TextSearch_isZero ext (TextSearch options)
        \<and> Terms (TextSearch options) \<noteq> None
        \<and> ExactPhrase (TextSearch options) \<noteq> '''' \<longrightarrow> rejected))"
proof (cases "badContentError ext options")
  case None
  then have rules: "exclusivity_rules ext options"
    by (simp add: badContentError_None_iff)
  then have "\<not> (\<not> TextSearch_isZero ext (TextSearch options)
            \<and> Terms (TextSearch options) \<noteq> None
            \<and> ExactPhrase (TextSearch options) \<noteq> '''')"
    by (auto simp add: exclusivity_rules_def Let_def)
  with rules show ?thesis
    using assms None
    by (simp add: post_searches_perform_def calls_def response_defs status_defs Let_def)
next
  case (Some err)
  then have "\<not> exclusivity_rules ext options"
    using badContentError_None_iff [of ext options] by simp
  then show ?thesis
    using assms Some
    by (simp add: post_searches_perform_def calls_def response_defs status_defs Let_def)
qed

lemma example_payloads:
  "\<not> exclusivity_rules example_ext phrase_and_terms"
  "\<not> exclusivity_rules example_ext both_categories"
  "exclusivity_rules example_ext terms_only"
  by (simp_all add: exclusivity_rules_def example_isZero phrase_and_terms_def
        both_categories_def terms_only_def)

theorem search_rejected_iff_rules_fail_witness:
  "status (post_searches_perform example_ext example_context
             (request [] [] (Inr phrase_and_terms) unbound)) = 400
   \<and> calls (post_searches_perform example_ext example_context
             (request [] [] (Inr phrase_and_terms) unbound)) = []
   \<and> status (post_searches_perform example_ext example_context
               (request [] [] (Inr both_categories) unbound)) = 400
   \<and> status (post_searches_perform example_ext example_context
               (request [] [] (Inr terms_only) unbound)) = 200
   \<and> calls (post_searches_perform example_ext example_context
              (request [] [] (Inr terms_only) unbound)) = [Call_PerformSearch terms_only]"
  using search_rejected_iff_rules_fail
          [of "request [] [] (Inr phrase_and_terms) unbound" phrase_and_terms
              example_ext example_context]
        search_rejected_iff_rules_fail
          [of "request [] [] (Inr both_categories) unbound" both_categories
              example_ext example_context]
        search_rejected_iff_rules_fail
          [of "request [] [] (Inr terms_only) unbound" terms_only example_ext example_context]
  by (simp add: example_simps example_payloads Let_def)

subsection \<open>Cancelling a session\<close>

text \<open>
  C2. DELETE /api/pcap/sessions/:id with a well-formed id, over an importer whose
  \<^verbatim>\<open>CancelSession\<close> is the operation of the specification on the sessions: the
  operation returns true exactly when the id names a running session, which it marks
  cancelled (otherwise the sessions are unchanged); the route answers 202 Accepted with
  the session id and sends \<open>sessions.delete\<close> when it returned true, and answers 404 Not
  Found with no notification otherwise.
\<close>

theorem cancel_session_route:
  assumes "RowIDFromHex ext (Param c ''id'') = Inr sessionID"
      and "CancelSession (PcapImporter ctx) = (\<lambda>i. fst (cancel_session sessions i))"
  shows
  "(let out = delete_pcap_sessions_id ext ctx c;
        returned = fst (cancel_session sessions sessionID);
        sessions' = snd (cancel_session sessions sessionID);
        session = JObj [(''session'', JStr (Hex ext sessionID))]
    in (returned \<longleftrightarrow>
          (\<exists>s. sessions sessionID = Some s \<and> running s
               \<and> sessions' = sessions(sessionID \<mapsto> s\<lparr>cancelled := True\<rparr>)))
     \<and> (\<not> returned \<longrightarrow> sessions' = sessions)
     \<and> (returned \<longrightarrow>
          status out = 202 \<and> body out = JSON session
        \<and> notifications out = [Notify ''sessions.delete'' session])
     \<and> (\<not> returned \<longrightarrow> status out = 404 \<and> notifications out = [])
     \<and> calls out = [Call_CancelSession sessionID])"
proof -
  have model: "fst (cancel_session sessions sessionID) \<longleftrightarrow>
          (\<exists>s. sessions sessionID = Some s \<and> running s
               \<and> snd (cancel_session sessions sessionID)
                   = sessions(sessionID \<mapsto> s\<lparr>cancelled := True\<rparr>))"
    by (simp add: cancel_session_def split: option.splits)
  have unchanged: "\<not> fst (cancel_session sessions sessionID)
          \<Longrightarrow> snd (cancel_session sessions sessionID) = sessions"
    by (simp add: cancel_session_def split: option.splits if_splits)
  have route: "delete_pcap_sessions_id ext ctx c =
          (if fst (cancel_session sessions sessionID)
           then \<lparr>status = 202, body = JSON (JObj [(''session'', JStr (Hex ext sessionID))]),
                 effects = [Call_CancelSession sessionID,
                            Notify ''sessions.delete''
                              (JObj [(''session'', JStr (Hex ext sessionID))])]\<rparr>
           else \<lparr>status = 404, body = JSON (JObj [(''session'', JStr (Hex ext sessionID))]),
                 effects = [Call_CancelSession sessionID]\<rparr>)"
    using assms by (simp add: delete_pcap_sessions_id_def response_defs status_defs Let_def)
  have answer: "status (delete_pcap_sessions_id ext ctx c)
                  = (if fst (cancel_session sessions sessionID) then 202 else 404)
      \<and> body (delete_pcap_sessions_id ext ctx c)
          = JSON (JObj [(''session'', JStr (Hex ext sessionID))])
      \<and> notifications (delete_pcap_sessions_id ext ctx c)
          = (if fst (cancel_session sessions sessionID)
             then [Notify ''sessions.delete'' (JObj [(''session'', JStr (Hex ext sessionID))])]
             else [])
      \<and> calls (delete_pcap_sessions_id ext ctx c) = [Call_CancelSession sessionID]"
    by (simp add: route notifications_def calls_def)
  show ?thesis
    unfolding Let_def
  proof (intro conjI impI)
    show "fst (cancel_session sessions sessionID) \<longleftrightarrow>
          (\<exists>s. sessions sessionID = Some s \<and> running s
               \<and> snd (cancel_session sessions sessionID)
                   = sessions(sessionID \<mapsto> s\<lparr>cancelled := True\<rparr>))"
      by (rule model)
  qed (simp_all add: unchanged answer)
qed

theorem cancel_session_route_witness:
  "fst (cancel_session example_sessions 1)
   \<and> snd (cancel_session example_sessions 1) 1 = Some \<lparr>completed_at = None, cancelled = True\<rparr>
   \<and> status (delete_pcap_sessions_id example_ext example_context
                (request hex1 [] unbound unbound :: unit Context)) = 202
   \<and> body (delete_pcap_sessions_id example_ext example_context
              (request hex1 [] unbound unbound :: unit Context))
       = JSON (JObj [(''session'', JStr hex1)])
   \<and> notifications (delete_pcap_sessions_id example_ext example_context
                (request hex1 [] unbound unbound :: unit Context))
       = [Notify ''sessions.delete'' (JObj [(''session'', JStr hex1)])]
   \<and> \<not> fst (cancel_session example_sessions 2)
   \<and> status (delete_pcap_sessions_id example_ext example_context
                (request hex2 [] unbound unbound :: unit Context)) = 404
   \<and> notifications (delete_pcap_sessions_id example_ext example_context
                (request hex2 [] unbound unbound :: unit Context)) = []
   \<and> status (delete_pcap_sessions_id example_ext example_context
                (request hex3 [] unbound unbound :: unit Context)) = 404
   \<and> status (delete_pcap_sessions_id example_ext example_context
                (request hex4 [] unbound unbound :: unit Context)) = 404"
  using cancel_session_route [of example_ext "request hex1 [] unbound unbound :: unit Context" 1
          example_context example_sessions]
        cancel_session_route [of example_ext "request hex2 [] unbound unbound :: unit Context" 2
          example_context example_sessions]
        cancel_session_route [of example_ext "request hex3 [] unbound unbound :: unit Context" 3
          example_context example_sessions]
        cancel_session_route [of example_ext "request hex4 [] unbound unbound :: unit Context" 4
          example_context example_sessions]
  by (simp add: example_simps Let_def)

subsection \<open>Setup and the gate of the /api group\<close>



subsection \<open>Authentication\<close>

text \<open>
  The handlers do not read the credentials of a request; they reach the controllers
  only inside the request that some of their methods are handed.
\<close>

lemma as_context_credentials:
  "as_context (c\<lparr>Authorization := credentials\<rparr>)
     = (as_context c)\<lparr>Request_Authorization := credentials\<rparr>"
  by (simp add: as_context_def)

lemma controllers_ignore_credentialsD:
  assumes "controllers_ignore_credentials ctx rc"
  shows
    "AddRule (RulesManager ctx) (k\<lparr>Request_Authorization := credentials\<rparr>)
       = AddRule (RulesManager ctx) k"
    "UpdateRule (RulesManager ctx) (k\<lparr>Request_Authorization := credentials\<rparr>)
       = UpdateRule (RulesManager ctx) k"
    "GetConnections (ConnectionsController ctx) (k\<lparr>Request_Authorization := credentials\<rparr>)
       = GetConnections (ConnectionsController ctx) k"
    "GetConnection (ConnectionsController ctx) (k\<lparr>Request_Authorization := credentials\<rparr>)
       = GetConnection (ConnectionsController ctx) k"
    "SetHidden (ConnectionsController ctx) (k\<lparr>Request_Authorization := credentials\<rparr>)
       = SetHidden (ConnectionsController ctx) k"
    "SetMarked (ConnectionsController ctx) (k\<lparr>Request_Authorization := credentials\<rparr>)
       = SetMarked (ConnectionsController ctx) k"
    "SetComment (ConnectionsController ctx) (k\<lparr>Request_Authorization := credentials\<rparr>)
       = SetComment (ConnectionsController ctx) k"
    "GetConnectionMessages (ConnectionStreamsController ctx)
         (k\<lparr>Request_Authorization := credentials\<rparr>)
       = GetConnectionMessages (ConnectionStreamsController ctx) k"
    "DownloadConnectionMessages (ConnectionStreamsController ctx)
         (k\<lparr>Request_Authorization := credentials\<rparr>)
       = DownloadConnectionMessages (ConnectionStreamsController ctx) k"
    "PerformSearch (SearchController ctx) (k\<lparr>Request_Authorization := credentials\<rparr>)
       = PerformSearch (SearchController ctx) k"
    "SetService (ServicesController ctx) (k\<lparr>Request_Authorization := credentials\<rparr>)
       = SetService (ServicesController ctx) k"
    "DeleteService (ServicesController ctx) (k\<lparr>Request_Authorization := credentials\<rparr>)
       = DeleteService (ServicesController ctx) k"
    "GetStatistics (StatisticsController ctx) (k\<lparr>Request_Authorization := credentials\<rparr>)
       = GetStatistics (StatisticsController ctx) k"
    "GetTotalStatistics (StatisticsController ctx) (k\<lparr>Request_Authorization := credentials\<rparr>)
       = GetTotalStatistics (StatisticsController ctx) k"
    "GetSystemStats rc (k\<lparr>Request_Authorization := credentials\<rparr>) = GetSystemStats rc k"
    "GetProcessStats rc (k\<lparr>Request_Authorization := credentials\<rparr>) = GetProcessStats rc k"
  using assms unfolding controllers_ignore_credentials_def by blast+

lemma action_switch_ignores_credentials:
  assumes "controllers_ignore_credentials ctx rc"
  shows "action_switch ctx (c\<lparr>Authorization := credentials\<rparr>) i action
           = action_switch ctx c i action"
  by (simp add: action_switch_def as_context_credentials Let_def
        controllers_ignore_credentialsD [OF assms]
      cong: if_cong sum.case_cong option.case_cong)

lemma rules_routes_ignore_credentials:
  assumes "controllers_ignore_credentials ctx rc"
  shows
    "get_rules ctx (c\<lparr>Authorization := credentials\<rparr>) = get_rules ctx c"
    "post_rules ctx (c1\<lparr>Authorization := credentials\<rparr>) = post_rules ctx c1"
    "get_rules_id ext ctx (c\<lparr>Authorization := credentials\<rparr>) = get_rules_id ext ctx c"
    "put_rules_id ext ctx (c1\<lparr>Authorization := credentials\<rparr>) = put_rules_id ext ctx c1"
  by (simp_all add: get_rules_def post_rules_def get_rules_id_def put_rules_id_def
        as_context_credentials controllers_ignore_credentialsD [OF assms] Let_def
      cong: if_cong sum.case_cong option.case_cong prod.case_cong)

lemma pcap_routes_ignore_credentials:
  "post_pcap_upload ext ctx (c\<lparr>Authorization := credentials\<rparr>) = post_pcap_upload ext ctx c"
  "post_pcap_file ext ctx (c2\<lparr>Authorization := credentials\<rparr>) = post_pcap_file ext ctx c2"
  "get_pcap_sessions ctx (c\<lparr>Authorization := credentials\<rparr>) = get_pcap_sessions ctx c"
  "get_pcap_sessions_id ext ctx (c\<lparr>Authorization := credentials\<rparr>)
     = get_pcap_sessions_id ext ctx c"
  "get_pcap_sessions_id_download ext ctx (c\<lparr>Authorization := credentials\<rparr>)
     = get_pcap_sessions_id_download ext ctx c"
  "delete_pcap_sessions_id ext ctx (c\<lparr>Authorization := credentials\<rparr>)
     = delete_pcap_sessions_id ext ctx c"
  "get_pcap_connections_id_download ext ctx (c\<lparr>Authorization := credentials\<rparr>)
     = get_pcap_connections_id_download ext ctx c"
  by (simp_all add: post_pcap_upload_def post_pcap_file_def get_pcap_sessions_def
        get_pcap_sessions_id_def get_pcap_sessions_id_download_def delete_pcap_sessions_id_def
        get_pcap_connections_id_download_def Let_def
      cong: if_cong sum.case_cong option.case_cong prod.case_cong)

lemma capture_routes_ignore_credentials:
  "put_capture_local ctx (c3\<lparr>Authorization := credentials\<rparr>) = put_capture_local ctx c3"
  "delete_capture ctx (c\<lparr>Authorization := credentials\<rparr>) = delete_capture ctx c"
  "post_capture_local_interfaces ctx (c\<lparr>Authorization := credentials\<rparr>)
     = post_capture_local_interfaces ctx c"
  "put_capture_interval ext ctx (c5\<lparr>Authorization := credentials\<rparr>)
     = put_capture_interval ext ctx c5"
  "put_capture_remote ctx (c6\<lparr>Authorization := credentials\<rparr>) = put_capture_remote ctx c6"
  "post_capture_remote_interfaces ctx (c3\<lparr>Authorization := credentials\<rparr>)
     = post_capture_remote_interfaces ctx c3"
  by (simp_all add: put_capture_local_def delete_capture_def post_capture_local_interfaces_def
        put_capture_interval_def put_capture_remote_def post_capture_remote_interfaces_def
        Let_def
      cong: if_cong sum.case_cong option.case_cong prod.case_cong)

lemma connection_routes_ignore_credentials:
  assumes "controllers_ignore_credentials ctx rc"
  shows
    "get_connections ctx (c3\<lparr>Authorization := credentials\<rparr>) = get_connections ctx c3"
    "get_connections_id ext ctx (c\<lparr>Authorization := credentials\<rparr>)
       = get_connections_id ext ctx c"
    "post_connections_id_action ext ctx (c7\<lparr>Authorization := credentials\<rparr>)
       = post_connections_id_action ext ctx c7"
    "get_streams_id ext ctx (c3\<lparr>Authorization := credentials\<rparr>) = get_streams_id ext ctx c3"
    "get_streams_id_download ext ctx (c3\<lparr>Authorization := credentials\<rparr>)
       = get_streams_id_download ext ctx c3"
  by (simp_all add: get_connections_def get_connections_id_def post_connections_id_action_def
        get_streams_id_def get_streams_id_download_def
        action_switch_ignores_credentials [OF assms]
        as_context_credentials controllers_ignore_credentialsD [OF assms] Let_def
      cong: if_cong sum.case_cong option.case_cong prod.case_cong)

lemma search_routes_ignore_credentials:
  assumes "controllers_ignore_credentials ctx rc"
  shows
    "get_searches ctx (c\<lparr>Authorization := credentials\<rparr>) = get_searches ctx c"
    "post_searches_perform ext ctx (c4\<lparr>Authorization := credentials\<rparr>)
       = post_searches_perform ext ctx c4"
  by (simp_all add: get_searches_def post_searches_perform_def
        as_context_credentials controllers_ignore_credentialsD [OF assms] Let_def
      cong: if_cong sum.case_cong option.case_cong prod.case_cong)

lemma service_routes_ignore_credentials:
  assumes "controllers_ignore_credentials ctx rc"
  shows
    "get_status ctx (c\<lparr>Authorization := credentials\<rparr>) = get_status ctx c"
    "get_services ctx (c\<lparr>Authorization := credentials\<rparr>) = get_services ctx c"
    "put_services ctx (c3\<lparr>Authorization := credentials\<rparr>) = put_services ctx c3"
    "delete_services ctx (c3\<lparr>Authorization := credentials\<rparr>) = delete_services ctx c3"
    "get_statistics ctx (c3\<lparr>Authorization := credentials\<rparr>) = get_statistics ctx c3"
    "get_statistics_totals ctx (c3\<lparr>Authorization := credentials\<rparr>)
       = get_statistics_totals ctx c3"
    "get_resources_system rc (c\<lparr>Authorization := credentials\<rparr>) = get_resources_system rc c"
    "get_resources_process rc (c\<lparr>Authorization := credentials\<rparr>)
       = get_resources_process rc c"
  by (simp_all add: get_status_def get_services_def put_services_def delete_services_def
        get_statistics_def get_statistics_totals_def get_resources_system_def
        get_resources_process_def
        as_context_credentials controllers_ignore_credentialsD [OF assms] Let_def
      cong: if_cong sum.case_cong option.case_cong prod.case_cong)

lemma api_ignores_credentials:
  assumes "\<not> AuthRequired (Config ctx)"
    and "handler (c\<lparr>Authorization := credentials\<rparr>) = handler c"
  shows "api gin_BasicAuth ctx handler (c\<lparr>Authorization := credentials\<rparr>)
           = api gin_BasicAuth ctx handler c"
  using assms by (simp add: api_def SetupRequiredMiddleware_def AuthRequiredMiddleware_def)

lemma api_route_ignores_credentials:
  assumes "\<not> AuthRequired (Config ctx)" and "controllers_ignore_credentials ctx rc"
  shows "api_route refusal ext ctx rc (with_credentials credentials r)
           = api_route refusal ext ctx rc r"
  using assms(1)
  by (cases r) (simp_all add: api_ignores_credentials pcap_routes_ignore_credentials
       capture_routes_ignore_credentials rules_routes_ignore_credentials [OF assms(2)]
       connection_routes_ignore_credentials [OF assms(2)]
       search_routes_ignore_credentials [OF assms(2)]
       service_routes_ignore_credentials [OF assms(2)])

text \<open>
  C9. When \<^verbatim>\<open>Config.AuthRequired\<close> is false the authentication middleware hands
  every request to the rest of the chain: its outcome is the handler's and depends
  neither on \<^verbatim>\<open>gin.BasicAuth\<close> nor on the accounts. Then the outcome of every route
  of the /api group is the same however credentials are matched, and two requests to
  the group that differ only in the credentials they carry get the same outcome,
  provided that the controllers, which are handed the request, do not read the
  credentials themselves. Basic authentication against the configured accounts runs
  only when \<^verbatim>\<open>AuthRequired\<close> is true.
\<close>

theorem auth_not_required_passes_through:
  "(\<not> AuthRequired (Config ctx) \<longrightarrow>
      AuthRequiredMiddleware gin_BasicAuth ctx handler c = handler c
    \<and> AuthRequiredMiddleware gin_BasicAuth ctx handler c
        = AuthRequiredMiddleware other_BasicAuth (ctx\<lparr>Accounts := accounts\<rparr>) handler c
    \<and> api_route refusal ext ctx rc r = api_route refusal' ext ctx rc r
    \<and> (controllers_ignore_credentials ctx rc \<longrightarrow>
         api_route refusal ext ctx rc (with_credentials credentials r)
           = api_route refusal ext ctx rc (with_credentials credentials' r)))
   \<and> (AuthRequired (Config ctx) \<longrightarrow>
        AuthRequiredMiddleware gin_BasicAuth ctx handler c
          = gin_BasicAuth (Accounts ctx) handler c)"
proof -
  have "api_route refusal ext ctx rc r = api_route refusal' ext ctx rc r"
    if "\<not> AuthRequired (Config ctx)"
    using that
    by (cases r) (simp_all add: api_def SetupRequiredMiddleware_def AuthRequiredMiddleware_def)
  moreover
  have "api_route refusal ext ctx rc (with_credentials credentials r)
          = api_route refusal ext ctx rc (with_credentials credentials' r)"
    if "\<not> AuthRequired (Config ctx)" and "controllers_ignore_credentials ctx rc"
    using that by (simp add: api_route_ignores_credentials)
  ultimately show ?thesis
    by (simp add: AuthRequiredMiddleware_def)
qed

lemma example_controllers_ignore_credentials:
  "controllers_ignore_credentials example_context example_resources"
  by (simp add: controllers_ignore_credentials_def example_context_def example_resources_def
        example_rules_def example_connections_def)

lemma example_BasicAuth_refusal:
  "example_BasicAuth accounts next c = BasicAuth example_refusal accounts next c"
  by (simp add: example_BasicAuth_def BasicAuth_def example_refusal_def split: option.splits)

lemma example_BasicAuth_simps:
  "example_BasicAuth [(''admin'', ''secret'')] next (c\<lparr>Authorization := Some ''mallory:guess''\<rparr>)
     = c_AbortWithStatus StatusUnauthorized"
  "example_BasicAuth [(''admin'', ''secret'')] next (c\<lparr>Authorization := Some ''admin:secret''\<rparr>)
     = next (c\<lparr>Authorization := Some ''admin:secret''\<rparr>)"
  by (simp_all add: example_BasicAuth_def)

lemma example_delete_session:
  "status (delete_pcap_sessions_id example_ext example_context
             (request hex1 [] unbound unbound)) = 202"
  by (simp add: delete_pcap_sessions_id_def example_simps response_defs status_defs Let_def)

theorem auth_not_required_passes_through_witness:
  "api_route example_refusal example_ext example_context example_resources
       (POST_api_connections_id_action
          ((request hex1 ''hide'' unbound unbound)\<lparr>Authorization := None\<rparr>))
     = api_route example_refusal example_ext example_context example_resources
         (POST_api_connections_id_action
            ((request hex1 ''hide'' unbound unbound)\<lparr>Authorization := Some ''mallory:guess''\<rparr>))
   \<and> status (api_route example_refusal example_ext example_context example_resources
               (POST_api_connections_id_action
                  ((request hex1 ''hide'' unbound unbound)
                     \<lparr>Authorization := Some ''mallory:guess''\<rparr>))) = 200
   \<and> api_route example_refusal example_ext example_context example_resources
         (POST_api_connections_id_action (request hex1 ''hide'' unbound unbound))
       = api_route (\<lambda>accounts header. Some 500) example_ext example_context example_resources
           (POST_api_connections_id_action (request hex1 ''hide'' unbound unbound))
   \<and> status (AuthRequiredMiddleware example_BasicAuth example_context
               (delete_pcap_sessions_id example_ext example_context)
               ((request hex1 [] unbound unbound :: unit Context)
                  \<lparr>Authorization := Some ''mallory:guess''\<rparr>)) = 202
   \<and> status (AuthRequiredMiddleware example_BasicAuth
               (example_context\<lparr>Config := \<lparr>AuthRequired = True\<rparr>\<rparr>)
               (delete_pcap_sessions_id example_ext example_context)
               ((request hex1 [] unbound unbound :: unit Context)
                  \<lparr>Authorization := Some ''mallory:guess''\<rparr>)) = 401
   \<and> status (AuthRequiredMiddleware example_BasicAuth
               (example_context\<lparr>Config := \<lparr>AuthRequired = True\<rparr>\<rparr>)
               (delete_pcap_sessions_id example_ext example_context)
               ((request hex1 [] unbound unbound :: unit Context)
                  \<lparr>Authorization := Some ''admin:secret''\<rparr>)) = 202"
  using auth_not_required_passes_through
          [of example_context example_BasicAuth
              "delete_pcap_sessions_id example_ext example_context"
              "(request hex1 [] unbound unbound :: unit Context)
                 \<lparr>Authorization := Some ''mallory:guess''\<rparr>"
              example_BasicAuth "[]" example_refusal example_ext example_resources
              "POST_api_connections_id_action (request hex1 ''hide'' unbound unbound)"
              "\<lambda>accounts header. Some 500" None "Some ''mallory:guess''"]
        auth_not_required_passes_through
          [of "example_context\<lparr>Config := \<lparr>AuthRequired = True\<rparr>\<rparr>" example_BasicAuth
              "delete_pcap_sessions_id example_ext example_context"
              "(request hex1 [] unbound unbound :: unit Context)
                 \<lparr>Authorization := Some ''mallory:guess''\<rparr>"
              example_BasicAuth "[]" example_refusal example_ext example_resources
              "POST_api_connections_id_action (request hex1 ''hide'' unbound unbound)"
              example_refusal None None]
        auth_not_required_passes_through
          [of "example_context\<lparr>Config := \<lparr>AuthRequired = True\<rparr>\<rparr>" example_BasicAuth
              "delete_pcap_sessions_id example_ext example_context"
              "(request hex1 [] unbound unbound :: unit Context)
                 \<lparr>Authorization := Some ''admin:secret''\<rparr>"
              example_BasicAuth "[]" example_refusal example_ext example_resources
              "POST_api_connections_id_action (request hex1 ''hide'' unbound unbound)"
              example_refusal None None]
  by (simp add: example_context_simps example_BasicAuth_simps pcap_routes_ignore_credentials
        example_controllers_ignore_credentials example_delete_session example_hide
        connection_routes_ignore_credentials [OF example_controllers_ignore_credentials]
        api_def SetupRequiredMiddleware_def AuthRequiredMiddleware_def
        c_AbortWithStatus_def status_defs)

text \<open>
  The condition on the controllers cannot be dropped: a controller that reads the
  header of the request it is handed answers two such requests differently, whatever
  the middleware does.
\<close>

lemma credentials_reach_the_controllers:
  "status (api_route example_refusal example_ext
             (example_context
                \<lparr>ConnectionsController :=
                   example_connections
                     \<lparr>SetHidden := (\<lambda>k i hidden. Request_Authorization k = Some ''admin:secret'')\<rparr>\<rparr>)
             example_resources
             (POST_api_connections_id_action
                ((request hex1 ''hide'' unbound unbound)
                   \<lparr>Authorization := Some ''admin:secret''\<rparr>))) = 200"
  "status (api_route example_refusal example_ext
             (example_context
                \<lparr>ConnectionsController :=
                   example_connections
                     \<lparr>SetHidden := (\<lambda>k i hidden. Request_Authorization k = Some ''admin:secret'')\<rparr>\<rparr>)
             example_resources
             (POST_api_connections_id_action
                ((request hex1 ''hide'' unbound unbound)
                   \<lparr>Authorization := Some ''mallory:guess''\<rparr>))) = 404"
  by (simp_all add: api_def SetupRequiredMiddleware_def AuthRequiredMiddleware_def
        post_connections_id_action_def action_switch_hide example_context_simps
        example_ext_simps request_simps as_context_def response_defs status_defs Let_def)

text \<open>
  With \<^verbatim>\<open>AuthRequired\<close> true, a configured server answers on every route of the
  group as \<^verbatim>\<open>gin.BasicAuth\<close> does to a request whose credentials it refuses, and runs
  no handler.
\<close>

lemma auth_required_rejects_refused_credentials:
  assumes "IsConfigured ctx" and "AuthRequired (Config ctx)"
    and "refusal (Accounts ctx) credentials = Some code"
  shows "api_route refusal ext ctx rc (with_credentials credentials r)
           = c_AbortWithStatus code"
  using assms
  by (cases r)
     (simp_all add: api_def SetupRequiredMiddleware_def AuthRequiredMiddleware_def
        BasicAuth_def)

subsection \<open>Import of a PCAP file of the server\<close>

text \<open>
  The outcome of POST /api/pcap/file for a body that binds and a file that exists, by
  the results of the copy, of the import and of the removal.
\<close>

lemma pcap_file_outcome:
  assumes "ShouldBindJSON c = Inr req" and "FileExists ext (File req)"
  shows
  "post_pcap_file ext ctx c =
     (let file = File req;
          fileName = Sprintf_v_s (UnixNano ext) (filepath_Base ext file);
          dst = filepath_Join ext (ProcessingPcapsBasePath ext) fileName;
          copy = Call_CopyFile dst file;
          import = Call_ImportPcap fileName (FlushAll req)
      in case CopyFile ext dst file of
           Some err \<Rightarrow>
             \<lparr>status = 500, body = NoBody,
              effects = [copy, Panic ''failed to copy pcap file'']\<rparr>
         | None \<Rightarrow>
             (case ImportPcap (PcapImporter ctx) fileName (FlushAll req) of
                Inr sessionID \<Rightarrow>
                  \<lparr>status = 202,
                   body = JSON (JObj [(''session'', JStr (Hex ext sessionID))]),
                   effects = [copy, import,
                              Notify ''pcap.file''
                                (JObj [(''session'', JStr (Hex ext sessionID))])]\<rparr>
              | Inl err \<Rightarrow>
                  if \<not> DeleteOriginalFile req
                  then \<lparr>status = 422,
                        body = JSON (JObj [(''result'', JStr ''error''), (''error'', JStr err)]),
                        effects = [copy, import]\<rparr>
                  else (case os_Remove ext file of
                          None \<Rightarrow>
                            \<lparr>status = 422,
                             body = JSON (JObj [(''result'', JStr ''error''),
                                                (''error'', JStr err)]),
                             effects = [copy, import, Call_Remove file]\<rparr>
                        | Some err' \<Rightarrow>
                            \<lparr>status = 500, body = NoBody,
                             effects = [copy, import, Call_Remove file,
                                        Panic ''failed to remove processed file'']\<rparr>)))"
  using assms
  by (simp add: post_pcap_file_def response_defs status_defs Let_def
        split: option.splits sum.splits)

text \<open>
  C10. POST /api/pcap/file, for a body that binds: a source path that does not exist
  is answered 400 and nothing is copied. Otherwise the first thing the route does is to
  copy the file into the processing directory under the name made of the clock reading
  in nanoseconds, a dash and the base name of the file. After a copy that succeeded the
  original file is removed exactly when \<^verbatim>\<open>delete_original_file\<close> is set and
  \<^verbatim>\<open>ImportPcap\<close> returns an error; when the import succeeds the answer is 202 and the
  route did nothing but the copy, the import and the notification, whatever
  \<^verbatim>\<open>delete_original_file\<close> says. The route never removes any other file.
\<close>

theorem pcap_file_removal_only_on_error:
  assumes "ShouldBindJSON c = Inr req"
  shows
  "(let out = post_pcap_file ext ctx c;
        file = File req;
        fileName = Sprintf_v_s (UnixNano ext) (filepath_Base ext file);
        dst = filepath_Join ext (ProcessingPcapsBasePath ext) fileName;
        imported = ImportPcap (PcapImporter ctx) fileName (FlushAll req)
    in (\<not> FileExists ext file \<longrightarrow> status out = 400 \<and> effects out = [])
     \<and> (FileExists ext file \<longrightarrow> (\<exists>rest. effects out = Call_CopyFile dst file # rest))
     \<and> (FileExists ext file \<and> CopyFile ext dst file = None \<longrightarrow>
          (Call_Remove file \<in> set (effects out)
             \<longleftrightarrow> DeleteOriginalFile req \<and> (\<exists>err. imported = Inl err))
        \<and> (\<forall>sessionID. imported = Inr sessionID \<longrightarrow>
              status out = 202
            \<and> effects out
                = [Call_CopyFile dst file, Call_ImportPcap fileName (FlushAll req),
                   Notify ''pcap.file'' (JObj [(''session'', JStr (Hex ext sessionID))])]))
     \<and> (\<forall>path. Call_Remove path \<in> set (effects out) \<longrightarrow>
          path = file \<and> DeleteOriginalFile req \<and> (\<exists>err. imported = Inl err))
     \<and> (0 \<le> UnixNano ext \<longrightarrow>
          fileName = decimal (nat (UnixNano ext)) @ ''-'' @ filepath_Base ext file))"
proof (cases "FileExists ext (File req)")
  case False
  with assms show ?thesis
    by (simp add: post_pcap_file_def Sprintf_v_s_def response_defs status_defs Let_def)
next
  case True
  note outcome = pcap_file_outcome [OF assms True, unfolded Let_def]
  show ?thesis
    unfolding Let_def
    by (simp add: outcome True Sprintf_v_s_def split: option.splits sum.splits)
qed

lemma digit_chars:
  "char_of (48::nat) = CHR ''0''" "char_of (49::nat) = CHR ''1''" "char_of (50::nat) = CHR ''2''"
  "char_of (51::nat) = CHR ''3''" "char_of (52::nat) = CHR ''4''" "char_of (53::nat) = CHR ''5''"
  "char_of (54::nat) = CHR ''6''" "char_of (55::nat) = CHR ''7''" "char_of (56::nat) = CHR ''8''"
  "char_of (57::nat) = CHR ''9''"
  by (simp_all add: char_of_def bit_iff_odd)

lemma example_fileName:
  "decimal 1700000000000000042 = ''1700000000000000042''"
  "Sprintf_v_s 1700000000000000042 ''a.pcap'' = ''1700000000000000042-a.pcap''"
  by (simp_all add: Sprintf_v_s_def decimal.simps digit_chars)

theorem pcap_file_removal_only_on_error_witness:
  "Call_Remove ''/captures/a.pcap''
     \<in> set (effects (post_pcap_file example_ext example_context
                       (request [] []
                          (Inr \<lparr>File = ''/captures/a.pcap'', FlushAll = False,
                                DeleteOriginalFile = True\<rparr>) unbound)))
   \<and> Call_Remove ''/captures/a.pcap''
       \<notin> set (effects (post_pcap_file example_ext example_context
                         (request [] []
                            (Inr \<lparr>File = ''/captures/a.pcap'', FlushAll = False,
                                  DeleteOriginalFile = False\<rparr>) unbound)))
   \<and> status (post_pcap_file example_ext example_context
               (request [] []
                  (Inr \<lparr>File = ''/captures/a.pcap'', FlushAll = True,
                        DeleteOriginalFile = True\<rparr>) unbound)) = 202
   \<and> effects (post_pcap_file example_ext example_context
                (request [] []
                   (Inr \<lparr>File = ''/captures/a.pcap'', FlushAll = True,
                         DeleteOriginalFile = True\<rparr>) unbound))
       = [Call_CopyFile ''pcaps/processing/1700000000000000042-a.pcap'' ''/captures/a.pcap'',
          Call_ImportPcap ''1700000000000000042-a.pcap'' True,
          Notify ''pcap.file'' (JObj [(''session'', JStr hex3)])]
   \<and> status (post_pcap_file example_ext example_context
               (request [] []
                  (Inr \<lparr>File = ''/captures/missing.pcap'', FlushAll = True,
                        DeleteOriginalFile = True\<rparr>) unbound)) = 400
   \<and> effects (post_pcap_file example_ext example_context
                (request [] []
                   (Inr \<lparr>File = ''/captures/missing.pcap'', FlushAll = True,
                         DeleteOriginalFile = True\<rparr>) unbound)) = []"
  using pcap_file_removal_only_on_error
          [of "request [] []
                 (Inr \<lparr>File = ''/captures/a.pcap'', FlushAll = False,
                       DeleteOriginalFile = True\<rparr>) unbound"
              "\<lparr>File = ''/captures/a.pcap'', FlushAll = False, DeleteOriginalFile = True\<rparr>"
              example_ext example_context]
        pcap_file_removal_only_on_error
          [of "request [] []
                 (Inr \<lparr>File = ''/captures/a.pcap'', FlushAll = False,
                       DeleteOriginalFile = False\<rparr>) unbound"
              "\<lparr>File = ''/captures/a.pcap'', FlushAll = False, DeleteOriginalFile = False\<rparr>"
              example_ext example_context]
        pcap_file_removal_only_on_error
          [of "request [] []
                 (Inr \<lparr>File = ''/captures/a.pcap'', FlushAll = True,
                       DeleteOriginalFile = True\<rparr>) unbound"
              "\<lparr>File = ''/captures/a.pcap'', FlushAll = True, DeleteOriginalFile = True\<rparr>"
              example_ext example_context]
        pcap_file_removal_only_on_error
          [of "request [] []
                 (Inr \<lparr>File = ''/captures/missing.pcap'', FlushAll = True,
                       DeleteOriginalFile = True\<rparr>) unbound"
              "\<lparr>File = ''/captures/missing.pcap'', FlushAll = True,
                DeleteOriginalFile = True\<rparr>"
              example_ext example_context]
  by (simp add: example_simps example_fileName Let_def)

end
